theory Spec2Isabelle
  imports Complex_Main "HOL-Library.Char_ord" "HOL-Library.List_Lexorder"
begin

section \<open>JavaScript values used by \<open>src/app.js\<close>\<close>

text \<open>
  A JavaScript number is modelled as \<open>NaN\<close>, one of the two infinities, or a finite value.
  Finite values are exact rationals: the special-value rules of the arithmetic operators are
  written out, the binary64 rounding of a finite result and the sign of zero are not modelled.
\<close>

datatype jsnum = NaN | PosInf | NegInf | Fin rat

text \<open>What a response field can hold: \<open>undefined\<close>, \<open>null\<close>, a number or a string.\<close>

datatype jsval = Undefined | Null | Num jsnum | Str string

text \<open>
  An upstream numeric field is a number or absent (\<open>undefined\<close>): \<open>jsnum option\<close>.
  \<open>ToBoolean\<close> on such a field: absent, zero and \<open>NaN\<close> are falsy.
\<close>

fun truthy_num :: "jsnum option \<Rightarrow> bool" where
  "truthy_num None = False"
| "truthy_num (Some NaN) = False"
| "truthy_num (Some (Fin q)) = (q \<noteq> 0)"
| "truthy_num (Some _) = True"

text \<open>\<open>ToNumber\<close> on a field that is a number or \<open>undefined\<close>.\<close>

fun to_number :: "jsnum option \<Rightarrow> jsnum" where
  "to_number None = NaN"
| "to_number (Some n) = n"

fun of_field :: "jsnum option \<Rightarrow> jsval" where
  "of_field None = Undefined"
| "of_field (Some n) = Num n"

text \<open>The operators \<open>*\<close>, \<open>/\<close> and \<open>-\<close> on numbers.\<close>

fun js_mul :: "jsnum \<Rightarrow> jsnum \<Rightarrow> jsnum" where
  "js_mul NaN _ = NaN"
| "js_mul _ NaN = NaN"
| "js_mul (Fin a) (Fin b) = Fin (a * b)"
| "js_mul (Fin a) PosInf = (if a = 0 then NaN else if 0 < a then PosInf else NegInf)"
| "js_mul (Fin a) NegInf = (if a = 0 then NaN else if 0 < a then NegInf else PosInf)"
| "js_mul PosInf (Fin b) = (if b = 0 then NaN else if 0 < b then PosInf else NegInf)"
| "js_mul NegInf (Fin b) = (if b = 0 then NaN else if 0 < b then NegInf else PosInf)"
| "js_mul PosInf PosInf = PosInf"
| "js_mul PosInf NegInf = NegInf"
| "js_mul NegInf PosInf = NegInf"
| "js_mul NegInf NegInf = PosInf"

fun js_div :: "jsnum \<Rightarrow> jsnum \<Rightarrow> jsnum" where
  "js_div NaN _ = NaN"
| "js_div _ NaN = NaN"
| "js_div (Fin a) (Fin b) =
     (if b = 0 then (if a = 0 then NaN else if 0 < a then PosInf else NegInf)
      else Fin (a / b))"
| "js_div (Fin a) PosInf = Fin 0"
| "js_div (Fin a) NegInf = Fin 0"
| "js_div PosInf (Fin b) = (if 0 \<le> b then PosInf else NegInf)"
| "js_div NegInf (Fin b) = (if 0 \<le> b then NegInf else PosInf)"
| "js_div PosInf PosInf = NaN"
| "js_div PosInf NegInf = NaN"
| "js_div NegInf PosInf = NaN"
| "js_div NegInf NegInf = NaN"

fun js_sub :: "jsnum \<Rightarrow> jsnum \<Rightarrow> jsnum" where
  "js_sub NaN _ = NaN"
| "js_sub _ NaN = NaN"
| "js_sub (Fin a) (Fin b) = Fin (a - b)"
| "js_sub (Fin a) PosInf = NegInf"
| "js_sub (Fin a) NegInf = PosInf"
| "js_sub PosInf (Fin b) = PosInf"
| "js_sub NegInf (Fin b) = NegInf"
| "js_sub PosInf PosInf = NaN"
| "js_sub PosInf NegInf = PosInf"
| "js_sub NegInf PosInf = NegInf"
| "js_sub NegInf NegInf = NaN"

subsection \<open>Strings\<close>

definition digit_char :: "nat \<Rightarrow> char" where
  "digit_char n = char_of (of_char CHR ''0'' + n mod 10)"

fun dec_digits :: "nat \<Rightarrow> string" where
  "dec_digits n = (if n < 10 then [digit_char n] else dec_digits (n div 10) @ [digit_char (n mod 10)])"

declare dec_digits.simps [simp del]

text \<open>
  \<open>String(n)\<close> and template interpolation of the value a \<open>Date\<close> getter returns:
  an integer, or \<open>NaN\<close> (here \<open>None\<close>) on an invalid date.
\<close>

fun js_String :: "int option \<Rightarrow> string" where
  "js_String None = ''NaN''"
| "js_String (Some i) = (if i < 0 then CHR ''-'' # dec_digits (nat (- i)) else dec_digits (nat i))"

text \<open>\<open>s.padStart(n, '0')\<close>.\<close>

definition padStart0 :: "nat \<Rightarrow> string \<Rightarrow> string" where
  "padStart0 n s = replicate (n - length s) CHR ''0'' @ s"

text \<open>
  \<open>s.toUpperCase()\<close>; strings are byte strings here and only the ASCII letters are mapped.
\<close>

definition upper_char :: "char \<Rightarrow> char" where
  "upper_char c =
     (if CHR ''a'' \<le> c \<and> c \<le> CHR ''z'' then char_of (of_char c - (32::nat)) else c)"

definition toUpperCase :: "string \<Rightarrow> string" where
  "toUpperCase s = map upper_char s"

text \<open>\<open>s.includes(t)\<close>: \<open>t\<close> occurs in \<open>s\<close> as a contiguous substring.\<close>

fun starts_with :: "string \<Rightarrow> string \<Rightarrow> bool" where
  "starts_with s [] = True"
| "starts_with [] (c # t) = False"
| "starts_with (d # s) (c # t) = (d = c \<and> starts_with s t)"

fun str_includes :: "string \<Rightarrow> string \<Rightarrow> bool" where
  "str_includes [] t = (t = [])"
| "str_includes (d # s) t = (starts_with (d # s) t \<or> str_includes s t)"

subsection \<open>Dates\<close>

text \<open>
  A \<open>Date\<close> object holds a time value, the milliseconds since 1970-01-01T00:00:00Z (at most
  \<open>8.64 * 10^15\<close> in magnitude), or is invalid. The UTC getters follow the ECMAScript
  definitions \<open>Day\<close>, \<open>DayFromYear\<close>, \<open>YearFromTime\<close>, \<open>InLeapYear\<close>, \<open>MonthFromTime\<close> and
  \<open>DateFromTime\<close>; none of them reads the local time zone.
\<close>

datatype jsdate = InvalidDate | TimeValue int

definition msPerDay :: int where
  "msPerDay = 86400000"

definition Day :: "int \<Rightarrow> int" where
  "Day t = t div msPerDay"

definition TimeWithinDay :: "int \<Rightarrow> int" where
  "TimeWithinDay t = t mod msPerDay"

definition DayFromYear :: "int \<Rightarrow> int" where
  "DayFromYear y =
     365 * (y - 1970) + (y - 1969) div 4 - (y - 1901) div 100 + (y - 1601) div 400"

definition DaysInYear :: "int \<Rightarrow> int" where
  "DaysInYear y =
     (if y mod 4 \<noteq> 0 then 365
      else if y mod 100 \<noteq> 0 then 366
      else if y mod 400 \<noteq> 0 then 365
      else 366)"

text \<open>
  The year of a day number, computed over the 400-, 100-, 4- and 1-year cycles counted from
  1601-01-01 (day \<open>-134774\<close>). It is the largest \<open>y\<close> with \<open>DayFromYear y \<le> d\<close>
  (lemma \<open>YearFromDay_bracket\<close>).
\<close>

definition YearFromDay :: "int \<Rightarrow> int" where
  "YearFromDay d =
     (let n = d + 134774;
          n400 = n div 146097; r = n mod 146097;
          n100 = min 3 (r div 36524); r1 = r - n100 * 36524;
          n4 = r1 div 1461; r2 = r1 mod 1461;
          n1 = min 3 (r2 div 365)
      in 1601 + 400 * n400 + 100 * n100 + 4 * n4 + n1)"

definition YearFromTime :: "int \<Rightarrow> int" where
  "YearFromTime t = YearFromDay (Day t)"

definition InLeapYear :: "int \<Rightarrow> int" where
  "InLeapYear t = (if DaysInYear (YearFromTime t) = 366 then 1 else 0)"

definition DayWithinYear :: "int \<Rightarrow> int" where
  "DayWithinYear t = Day t - DayFromYear (YearFromTime t)"

definition MonthFromTime :: "int \<Rightarrow> int" where
  "MonthFromTime t =
     (let d = DayWithinYear t; l = InLeapYear t in
      if d < 31 then 0
      else if d < 59 + l then 1
      else if d < 90 + l then 2
      else if d < 120 + l then 3
      else if d < 151 + l then 4
      else if d < 181 + l then 5
      else if d < 212 + l then 6
      else if d < 243 + l then 7
      else if d < 273 + l then 8
      else if d < 304 + l then 9
      else if d < 334 + l then 10
      else 11)"

definition DateFromTime :: "int \<Rightarrow> int" where
  "DateFromTime t =
     (let d = DayWithinYear t; l = InLeapYear t; m = MonthFromTime t in
      if m = 0 then d + 1
      else if m = 1 then d - 30
      else if m = 2 then d - 58 - l
      else if m = 3 then d - 89 - l
      else if m = 4 then d - 119 - l
      else if m = 5 then d - 150 - l
      else if m = 6 then d - 180 - l
      else if m = 7 then d - 211 - l
      else if m = 8 then d - 242 - l
      else if m = 9 then d - 272 - l
      else if m = 10 then d - 303 - l
      else d - 333 - l)"

fun getUTCFullYear :: "jsdate \<Rightarrow> int option" where
  "getUTCFullYear InvalidDate = None"
| "getUTCFullYear (TimeValue t) = Some (YearFromTime t)"

fun getUTCMonth :: "jsdate \<Rightarrow> int option" where
  "getUTCMonth InvalidDate = None"
| "getUTCMonth (TimeValue t) = Some (MonthFromTime t)"

fun getUTCDate :: "jsdate \<Rightarrow> int option" where
  "getUTCDate InvalidDate = None"
| "getUTCDate (TimeValue t) = Some (DateFromTime t)"

subsection \<open>\<open>formatDateToYMD\<close>\<close>

definition formatDateToYMD :: "jsdate \<Rightarrow> string" where
  "formatDateToYMD date =
     (let year = getUTCFullYear date;
          month = padStart0 2 (js_String (map_option (\<lambda>m. m + 1) (getUTCMonth date)));
          day = padStart0 2 (js_String (getUTCDate date))
      in js_String year @ ''-'' @ month @ ''-'' @ day)"

subsection \<open>\<open>parseFloat\<close>, \<open>toFixed\<close> and \<open>toISOString\<close>\<close>

text \<open>
  \<open>parseFloat\<close> skips leading white space and reads the longest prefix that is a decimal
  literal. Of the white space and line terminator characters only those of ASCII occur in
  byte strings.
\<close>

definition is_ws :: "char \<Rightarrow> bool" where
  "is_ws c = (c \<in> set [CHR 0x09, CHR 0x0A, CHR 0x0B, CHR 0x0C, CHR 0x0D, CHR 0x20])"

definition is_digit :: "char \<Rightarrow> bool" where
  "is_digit c = (CHR ''0'' \<le> c \<and> c \<le> CHR ''9'')"

definition digit_val :: "char \<Rightarrow> nat" where
  "digit_val c = of_char c - 48"

definition digits_val :: "string \<Rightarrow> nat" where
  "digits_val ds = foldl (\<lambda>a c. 10 * a + digit_val c) 0 ds"

definition pow10 :: "int \<Rightarrow> rat" where
  "pow10 e = (if 0 \<le> e then 10 ^ nat e else 1 / 10 ^ nat (- e))"

text \<open>The optional \<open>ExponentPart\<close> of a decimal literal; without one the exponent is 0.\<close>

definition signed_integer :: "string \<Rightarrow> int option" where
  "signed_integer s =
     (let neg = (case s of [] \<Rightarrow> False | c # u \<Rightarrow> c = CHR ''-'');
          u = (case s of [] \<Rightarrow> [] | c # u \<Rightarrow> if c = CHR ''-'' \<or> c = CHR ''+'' then u else s);
          ds = takeWhile is_digit u
      in if ds = [] then None
         else Some (if neg then - int (digits_val ds) else int (digits_val ds)))"

definition exponent_part :: "string \<Rightarrow> int" where
  "exponent_part s =
     (case s of
        [] \<Rightarrow> 0
      | c # u \<Rightarrow>
          if c = CHR ''e'' \<or> c = CHR ''E''
          then (case signed_integer u of None \<Rightarrow> 0 | Some e \<Rightarrow> e)
          else 0)"

text \<open>
  The value of the longest prefix that is a \<open>StrUnsignedDecimalLiteral\<close>; \<open>NaN\<close> when no
  prefix is one.
\<close>

definition unsigned_literal :: "string \<Rightarrow> jsnum" where
  "unsigned_literal s =
     (if starts_with s ''Infinity'' then PosInf
      else
        let ip = takeWhile is_digit s;
            r = dropWhile is_digit s;
            dot = (case r of [] \<Rightarrow> False | c # u \<Rightarrow> c = CHR ''.'');
            fp = (if dot then takeWhile is_digit (tl r) else []);
            r2 = (if dot then dropWhile is_digit (tl r) else r)
        in if ip = [] \<and> fp = [] then NaN
           else Fin (of_nat (digits_val (ip @ fp)) / 10 ^ length fp * pow10 (exponent_part r2)))"

fun js_neg :: "jsnum \<Rightarrow> jsnum" where
  "js_neg NaN = NaN"
| "js_neg PosInf = NegInf"
| "js_neg NegInf = PosInf"
| "js_neg (Fin q) = Fin (- q)"

definition parseFloat :: "string \<Rightarrow> jsnum" where
  "parseFloat s =
     (case dropWhile is_ws s of
        [] \<Rightarrow> NaN
      | c # u \<Rightarrow>
          if c = CHR ''-'' then js_neg (unsigned_literal u)
          else if c = CHR ''+'' then unsigned_literal u
          else unsigned_literal (c # u))"

text \<open>
  \<open>parseFloat(x.toFixed(d))\<close> as one function on numbers. \<open>toFixed\<close> prints \<open>NaN\<close> and the
  infinities by name and a value of magnitude at least \<open>10^21\<close> by \<open>Number::toString\<close>, and
  \<open>parseFloat\<close> reads each of these back as the same number. Otherwise \<open>toFixed\<close> takes the
  magnitude of \<open>x\<close>, picks the integer \<open>n\<close> for which \<open>n / 10^d\<close> is closest to it (the larger
  one on a tie), and prints the digits of \<open>n\<close> with \<open>d\<close> of them after the point, behind a
  minus sign when \<open>x\<close> is negative; \<open>parseFloat\<close> reads that as \<open>n / 10^d\<close> with the sign.
\<close>

fun parseFloat_toFixed :: "jsnum \<Rightarrow> nat \<Rightarrow> jsnum" where
  "parseFloat_toFixed NaN d = NaN"
| "parseFloat_toFixed PosInf d = PosInf"
| "parseFloat_toFixed NegInf d = NegInf"
| "parseFloat_toFixed (Fin q) d =
     (if 10 ^ 21 \<le> \<bar>q\<bar> then Fin q
      else if q < 0 then Fin (- (of_int \<lfloor>- q * 10 ^ d + 1 / 2\<rfloor> / 10 ^ d))
      else Fin (of_int \<lfloor>q * 10 ^ d + 1 / 2\<rfloor> / 10 ^ d))"

text \<open>
  \<open>toISOString\<close> of a valid date: \<open>YYYY-MM-DDTHH:mm:ss.sssZ\<close>, the year with a sign and six
  digits outside 0..9999.
\<close>

definition iso_year :: "int \<Rightarrow> string" where
  "iso_year y =
     (if 0 \<le> y \<and> y \<le> 9999 then padStart0 4 (dec_digits (nat y))
      else (if y < 0 then CHR ''-'' else CHR ''+'') # padStart0 6 (dec_digits (nat \<bar>y\<bar>)))"

definition toISOString :: "int \<Rightarrow> string" where
  "toISOString t =
     iso_year (YearFromTime t) @ ''-'' @
     padStart0 2 (dec_digits (nat (MonthFromTime t + 1))) @ ''-'' @
     padStart0 2 (dec_digits (nat (DateFromTime t))) @ ''T'' @
     padStart0 2 (dec_digits (nat (TimeWithinDay t div 3600000))) @ '':'' @
     padStart0 2 (dec_digits (nat (TimeWithinDay t div 60000 mod 60))) @ '':'' @
     padStart0 2 (dec_digits (nat (TimeWithinDay t div 1000 mod 60))) @ ''.'' @
     padStart0 3 (dec_digits (nat (TimeWithinDay t mod 1000))) @ ''Z''"

section \<open>What the provider returns\<close>

text \<open>Each field the code reads is optional; a missing field reads as \<open>undefined\<close>.\<close>

record historicalPoint =
  date :: jsdate
  adjClose :: "jsnum option"

record quote =
  regularMarketPrice :: "jsnum option"
  regularMarketPreviousClose :: "jsnum option"
  marketCap :: "jsnum option"

record priceModule =
  longName :: "string option"
  exchangeName :: "string option"

record assetProfile =
  longBusinessSummary :: "string option"
  ap_sector :: "string option"
  ap_industry :: "string option"
  city :: "string option"
  country :: "string option"

text \<open>The answer to \<open>quoteSummary(ticker, {modules: ['assetProfile', 'price']})\<close>.\<close>

record profileSummary =
  price :: "priceModule option"
  assetProfile :: "assetProfile option"

record incomeStatement =
  totalRevenue :: "jsnum option"
  endDate :: "jsdate option"

record incomeStatementHistoryModule =
  ish_incomeStatementHistory :: "incomeStatement list option"

record rawNumber =
  raw :: "jsnum option"

record financialDataModule =
  fd_totalRevenue :: "rawNumber option"

record summaryDetailModule =
  beta :: "jsnum option"

record defaultKeyStatisticsModule =
  sharesOutstanding :: "jsnum option"

text \<open>
  The answer to \<open>quoteSummary\<close> with the modules \<open>defaultKeyStatistics\<close>,
  \<open>incomeStatementHistory\<close>, \<open>summaryDetail\<close> and \<open>financialData\<close>.
\<close>

record summaryData =
  defaultKeyStatistics :: "defaultKeyStatisticsModule option"
  incomeStatementHistory :: "incomeStatementHistoryModule option"
  summaryDetail :: "summaryDetailModule option"
  financialData :: "financialDataModule option"

text \<open>
  A thrown error, as the \<open>catch\<close> blocks read it: its \<open>code\<close> and its \<open>message\<close>.
  \<open>type_error\<close> is what \<open>undefined.toFixed(2)\<close> throws.
\<close>

record js_error =
  code :: jsval
  message :: "string option"

definition type_error :: js_error where
  "type_error =
     \<lparr> code = Undefined,
       message = Some ''Cannot read properties of undefined (reading 'toFixed')'' \<rparr>"

text \<open>
  The four fetches of one request: each is rejected with an error or fulfilled with a value.
  \<open>rejection_order\<close> lists the fetches in the order in which they settle; \<open>Promise.all\<close>
  rejects with the error of the first one to be rejected.
\<close>

datatype fetch = FHistorical | FQuote | FProfile | FSummary

record upstream =
  up_historical :: "js_error + historicalPoint list"
  up_quote :: "js_error + quote"
  up_profile :: "js_error + profileSummary"
  up_summary :: "js_error + summaryData"
  rejection_order :: "fetch list"

datatype upstream_call =
  CallHistorical string string
  | CallQuote string
  | CallQuoteSummary string "string list"

text \<open>A line written by \<open>console.error\<close>: the text and the error's message.\<close>

datatype log_entry = LogError string "string option"

section \<open>The response\<close>

record summaryBlock =
  initialInvestment :: jsnum
  currentValue :: jsnum
  totalReturnDollars :: jsnum
  totalReturnPercent :: jsnum
  s_ticker :: string
  s_startDate :: string
  sharesOwned :: jsnum
  requestTimestamp :: string

record chartPoint =
  cp_date :: string
  cp_value :: jsnum
  cp_price :: jsnum

record profileBlock =
  p_name :: string
  p_sector :: string
  p_industry :: string
  p_summary :: string
  p_location :: string
  p_exchange :: string

record previousCloseBlock =
  pc_value :: jsval
  pc_asOfDate :: string

record marketCapBlock =
  mc_value :: jsval
  mc_asOfDate :: string

record totalRevenueBlock =
  tr_value :: jsval
  tr_asOfDate :: jsval
  tr_label :: string

record metricsBlock =
  m_previousClose :: previousCloseBlock
  m_marketCap :: marketCapBlock
  m_totalRevenue :: totalRevenueBlock
  m_beta :: jsval

record result =
  summary :: summaryBlock
  chartData :: "chartPoint list"
  profile :: profileBlock
  metrics :: metricsBlock

datatype body = ErrorBody string | ResultBody result

record response =
  status :: nat
  body :: body

text \<open>What one request does: the response, the provider calls issued, the lines logged.\<close>

record outcome =
  res :: response
  calls :: "upstream_call list"
  logged :: "log_entry list"

text \<open>\<open>req.query\<close>: each of the three parameters is a string or absent.\<close>

record request =
  ticker :: "string option"
  startDate :: "string option"
  amount :: "string option"

section \<open>\<open>getCompanyDetails\<close>\<close>

text \<open>Template interpolation of a field that is a string or \<open>undefined\<close>.\<close>

fun interpolate :: "string option \<Rightarrow> string" where
  "interpolate None = ''undefined''"
| "interpolate (Some s) = s"

record companyDetails =
  fullName :: "string option"
  businessSummary :: "string option"
  cd_sector :: "string option"
  cd_industry :: "string option"
  cd_location :: string
  cd_exchange :: "string option"

text \<open>
  The function awaits the profile fetch; on a rejection it logs and returns \<open>null\<close>
  (\<open>None\<close>). It returns the details and the lines it logged.
\<close>

definition getCompanyDetails ::
  "string \<Rightarrow> js_error + profileSummary \<Rightarrow> companyDetails option \<times> log_entry list" where
  "getCompanyDetails tk fetched =
     (case fetched of
        Inr summ \<Rightarrow>
          (Some \<lparr> fullName = Option.bind (price summ) longName,
                  businessSummary = Option.bind (assetProfile summ) longBusinessSummary,
                  cd_sector = Option.bind (assetProfile summ) ap_sector,
                  cd_industry = Option.bind (assetProfile summ) ap_industry,
                  cd_location = interpolate (Option.bind (assetProfile summ) city) @ '', '' @
                                interpolate (Option.bind (assetProfile summ) country),
                  cd_exchange = Option.bind (price summ) exchangeName \<rparr>, [])
      | Inl err \<Rightarrow>
          (None, [LogError (''Error fetching profile data for '' @ tk @ '':'') (message err)]))"

section \<open>The endpoint \<open>GET /api/investment-data\<close>\<close>

text \<open>\<open>a || d\<close> where \<open>a\<close> is a string or \<open>undefined\<close>: the empty string is falsy too.\<close>

definition or_default :: "string option \<Rightarrow> string \<Rightarrow> string" where
  "or_default a d = (case a of None \<Rightarrow> d | Some s \<Rightarrow> if s = [] then d else s)"

text \<open>
  \<open>new Date(v)\<close> for a field that is a \<open>Date\<close> or \<open>undefined\<close>: a copy with the same time
  value, or an invalid date.
\<close>

fun new_Date :: "jsdate option \<Rightarrow> jsdate" where
  "new_Date None = InvalidDate"
| "new_Date (Some d) = d"

subsection \<open>Waiting for the four fetches\<close>

text \<open>\<open>getCompanyDetails\<close> catches the rejection of the profile fetch, so its promise is never rejected.\<close>

fun rejection_of :: "upstream \<Rightarrow> fetch \<Rightarrow> js_error option" where
  "rejection_of up FHistorical = (case up_historical up of Inl e \<Rightarrow> Some e | Inr _ \<Rightarrow> None)"
| "rejection_of up FQuote = (case up_quote up of Inl e \<Rightarrow> Some e | Inr _ \<Rightarrow> None)"
| "rejection_of up FProfile = None"
| "rejection_of up FSummary = (case up_summary up of Inl e \<Rightarrow> Some e | Inr _ \<Rightarrow> None)"

definition rejections :: "upstream \<Rightarrow> js_error list" where
  "rejections up =
     List.map_filter (rejection_of up) (rejection_order up @ [FHistorical, FQuote, FSummary])"

definition promise_all ::
  "upstream \<Rightarrow> js_error + (historicalPoint list \<times> quote \<times> summaryData)" where
  "promise_all up =
     (case rejections up of
        e # _ \<Rightarrow> Inl e
      | [] \<Rightarrow>
          (case (up_historical up, up_quote up, up_summary up) of
             (Inr h, Inr q, Inr s) \<Rightarrow> Inr (h, q, s)
           | (Inl e, _, _) \<Rightarrow> Inl e
           | (_, Inl e, _) \<Rightarrow> Inl e
           | (_, _, Inl e) \<Rightarrow> Inl e))"

subsection \<open>The \<open>catch\<close> block\<close>

definition catch_block :: "string \<Rightarrow> js_error \<Rightarrow> response \<times> log_entry list" where
  "catch_block tk err =
     (if code err = Str ''404'' \<or>
         (case message err of None \<Rightarrow> False | Some m \<Rightarrow> str_includes m ''Not Found'')
      then \<lparr> status = 404, body = ErrorBody (''Invalid ticker symbol: '' @ tk) \<rparr>
      else \<lparr> status = 500, body = ErrorBody ''An internal server error occurred.'' \<rparr>,
      [LogError (''Error in main endpoint for '' @ tk @ '':'') (message err)])"

subsection \<open>Revenue and market capitalization\<close>

definition latestAnnualStatement :: "summaryData \<Rightarrow> incomeStatement option" where
  "latestAnnualStatement s =
     Option.bind (Option.bind (incomeStatementHistory s) ish_incomeStatementHistory)
       (\<lambda>l. case l of [] \<Rightarrow> None | st # _ \<Rightarrow> Some st)"

definition ttm_revenue :: "summaryData \<Rightarrow> jsnum option" where
  "ttm_revenue s = Option.bind (Option.bind (financialData s) fd_totalRevenue) raw"

definition resolve_revenue :: "summaryData \<Rightarrow> string \<Rightarrow> totalRevenueBlock" where
  "resolve_revenue s lastTradingDayDate =
     (let st = latestAnnualStatement s in
      if truthy_num (Option.bind st totalRevenue) \<and> Option.bind st endDate \<noteq> None
      then \<lparr> tr_value = of_field (Option.bind st totalRevenue),
             tr_asOfDate = Str (formatDateToYMD (new_Date (Option.bind st endDate))),
             tr_label = ''Annual'' \<rparr>
      else if truthy_num (ttm_revenue s)
      then \<lparr> tr_value = of_field (ttm_revenue s),
             tr_asOfDate = Str lastTradingDayDate,
             tr_label = ''TTM'' \<rparr>
      else \<lparr> tr_value = Null, tr_asOfDate = Null, tr_label = ''Annual'' \<rparr>)"

definition calculatedMarketCap :: "quote \<Rightarrow> jsnum option \<Rightarrow> jsval" where
  "calculatedMarketCap q shares =
     (if truthy_num (regularMarketPreviousClose q) \<and> truthy_num shares
      then Num (js_mul (to_number (regularMarketPreviousClose q)) (to_number shares))
      else of_field (marketCap q))"

subsection \<open>Assembling the result\<close>

text \<open>
  One element of \<open>historicalData.map(...)\<close>. \<open>day.adjClose.toFixed(2)\<close> throws when the
  adjusted close is missing.
\<close>

definition chart_point :: "jsnum \<Rightarrow> historicalPoint \<Rightarrow> js_error + chartPoint" where
  "chart_point sharesPurchased day =
     (case adjClose day of
        None \<Rightarrow> Inl type_error
      | Some p \<Rightarrow>
          Inr \<lparr> cp_date = formatDateToYMD (date day),
                cp_value = parseFloat_toFixed (js_mul sharesPurchased p) 2,
                cp_price = parseFloat_toFixed p 2 \<rparr>)"

fun map_throwing :: "('a \<Rightarrow> 'e + 'b) \<Rightarrow> 'a list \<Rightarrow> 'e + 'b list" where
  "map_throwing f [] = Inr []"
| "map_throwing f (x # xs) =
     (case f x of
        Inl e \<Rightarrow> Inl e
      | Inr y \<Rightarrow> (case map_throwing f xs of Inl e \<Rightarrow> Inl e | Inr ys \<Rightarrow> Inr (y # ys)))"

definition profile_block :: "string \<Rightarrow> companyDetails option \<Rightarrow> profileBlock" where
  "profile_block tk profileData =
     \<lparr> p_name = or_default (Option.bind profileData fullName) (toUpperCase tk),
       p_sector = or_default (Option.bind profileData cd_sector) ''N/A'',
       p_industry = or_default (Option.bind profileData cd_industry) ''N/A'',
       p_summary = or_default (Option.bind profileData businessSummary) ''No summary available.'',
       p_location = or_default (map_option cd_location profileData) ''N/A'',
       p_exchange = or_default (Option.bind profileData cd_exchange) ''N/A'' \<rparr>"

text \<open>
  The part of the \<open>try\<close> block after the check for an empty series. \<open>day0\<close> is
  \<open>historicalData[0]\<close>, \<open>dayN\<close> is \<open>historicalData[historicalData.length - 1]\<close>, \<open>now\<close> is the
  time value of \<open>new Date()\<close>.
\<close>

definition build_result ::
  "string \<Rightarrow> string \<Rightarrow> string \<Rightarrow> historicalPoint list \<Rightarrow> historicalPoint \<Rightarrow> historicalPoint \<Rightarrow>
   quote \<Rightarrow> companyDetails option \<Rightarrow> summaryData \<Rightarrow> int \<Rightarrow> js_error + result" where
  "build_result tk sd am historicalData day0 dayN q profileData summ now =
     (let lastTradingDayDate = formatDateToYMD (date dayN);
          revenue = resolve_revenue summ lastTradingDayDate;
          beta_v = Option.bind (summaryDetail summ) beta;
          shares = Option.bind (defaultKeyStatistics summ) sharesOutstanding;
          cap = calculatedMarketCap q shares;
          initialInvestment_v = parseFloat am;
          startingPrice = to_number (adjClose day0);
          sharesPurchased = js_div initialInvestment_v startingPrice;
          currentValue_v = js_mul sharesPurchased (to_number (regularMarketPrice q));
          summary_v =
            \<lparr> initialInvestment = initialInvestment_v,
              currentValue = parseFloat_toFixed currentValue_v 2,
              totalReturnDollars = parseFloat_toFixed (js_sub currentValue_v initialInvestment_v) 2,
              totalReturnPercent =
                parseFloat_toFixed
                  (js_mul (js_div (js_sub currentValue_v initialInvestment_v) initialInvestment_v)
                     (Fin 100)) 2,
              s_ticker = toUpperCase tk,
              s_startDate = sd,
              sharesOwned = parseFloat_toFixed sharesPurchased 6,
              requestTimestamp = toISOString now \<rparr>
      in case map_throwing (chart_point sharesPurchased) historicalData of
           Inl e \<Rightarrow> Inl e
         | Inr chart \<Rightarrow>
             Inr \<lparr> summary = summary_v,
                   chartData = chart,
                   profile = profile_block tk profileData,
                   metrics =
                     \<lparr> m_previousClose =
                         \<lparr> pc_value = of_field (adjClose dayN), pc_asOfDate = lastTradingDayDate \<rparr>,
                       m_marketCap = \<lparr> mc_value = cap, mc_asOfDate = lastTradingDayDate \<rparr>,
                       m_totalRevenue = revenue,
                       m_beta = of_field beta_v \<rparr> \<rparr>)"

subsection \<open>The handler\<close>

definition bad_request :: outcome where
  "bad_request =
     \<lparr> res = \<lparr> status = 400,
               body = ErrorBody ''Missing required query parameters: ticker, startDate, amount'' \<rparr>,
       calls = [], logged = [] \<rparr>"

definition issued_calls :: "string \<Rightarrow> string \<Rightarrow> upstream_call list" where
  "issued_calls tk sd =
     [CallHistorical tk sd,
      CallQuote tk,
      CallQuoteSummary tk [''assetProfile'', ''price''],
      CallQuoteSummary tk
        [''defaultKeyStatistics'', ''incomeStatementHistory'', ''summaryDetail'', ''financialData'']]"

definition caught :: "string \<Rightarrow> string \<Rightarrow> log_entry list \<Rightarrow> js_error \<Rightarrow> outcome" where
  "caught tk sd plog err =
     \<lparr> res = fst (catch_block tk err), calls = issued_calls tk sd,
       logged = plog @ snd (catch_block tk err) \<rparr>"

definition try_block :: "string \<Rightarrow> string \<Rightarrow> string \<Rightarrow> upstream \<Rightarrow> int \<Rightarrow> outcome" where
  "try_block tk sd am up now =
     (let profileData = fst (getCompanyDetails tk (up_profile up));
          plog = snd (getCompanyDetails tk (up_profile up))
      in case promise_all up of
           Inl err \<Rightarrow> caught tk sd plog err
         | Inr (historicalData, q, summ) \<Rightarrow>
             (case historicalData of
                [] \<Rightarrow>
                  \<lparr> res = \<lparr> status = 404,
                            body = ErrorBody
                              ''No historical data found for the given ticker and date.'' \<rparr>,
                    calls = issued_calls tk sd, logged = plog \<rparr>
              | day0 # _ \<Rightarrow>
                  (case build_result tk sd am historicalData day0 (last historicalData)
                          q profileData summ now of
                     Inl err \<Rightarrow> caught tk sd plog err
                   | Inr r \<Rightarrow>
                       \<lparr> res = \<lparr> status = 200, body = ResultBody r \<rparr>,
                         calls = issued_calls tk sd, logged = plog \<rparr>)))"

definition handler :: "request \<Rightarrow> upstream \<Rightarrow> int \<Rightarrow> outcome" where
  "handler req up now =
     (case (ticker req, startDate req, amount req) of
        (Some tk, Some sd, Some am) \<Rightarrow>
          if tk = [] \<or> sd = [] \<or> am = [] then bad_request
          else try_block tk sd am up now
      | _ \<Rightarrow> bad_request)"

section \<open>Observations and sample data\<close>

text \<open>The payload of a response sent with status 200.\<close>

definition success_payload :: "outcome \<Rightarrow> result option" where
  "success_payload out =
     (case body (res out) of
        ErrorBody _ \<Rightarrow> None
      | ResultBody r \<Rightarrow> if status (res out) = 200 then Some r else None)"

text \<open>A response with \<open>summary.requestTimestamp\<close> blanked, to compare two runs.\<close>

definition blank_timestamp :: "response \<Rightarrow> response" where
  "blank_timestamp rsp =
     (case body rsp of
        ErrorBody _ \<Rightarrow> rsp
      | ResultBody r \<Rightarrow>
          rsp \<lparr> body := ResultBody (r \<lparr> summary := (summary r) \<lparr> requestTimestamp := [] \<rparr> \<rparr>) \<rparr>)"


text \<open>
  Chronological order on dates, and the dates whose UTC year has four digits. Strings are
  compared lexicographically, character by character.
\<close>

fun not_later :: "jsdate \<Rightarrow> jsdate \<Rightarrow> bool" where
  "not_later (TimeValue a) (TimeValue b) = (a \<le> b)"
| "not_later _ _ = False"

fun four_digit_year :: "jsdate \<Rightarrow> bool" where
  "four_digit_year InvalidDate = False"
| "four_digit_year (TimeValue t) = (1000 \<le> YearFromTime t \<and> YearFromTime t \<le> 9999)"

text \<open>
  Sample data: a purchase of 1000 on 2024-03-01 at an adjusted close of 100, a second trading
  day 2024-03-04, a live price of 120, a previous close of 50 with 1,000,000 shares, an annual
  statement of 1000 ending 2023-12-31 and a trailing revenue of 1200.
\<close>

definition sample_request :: request where
  "sample_request =
     \<lparr> ticker = Some ''aapl'', startDate = Some ''2024-03-01'', amount = Some ''1000'' \<rparr>"

definition sample_history :: "historicalPoint list" where
  "sample_history =
     [\<lparr> date = TimeValue 1709251200000, adjClose = Some (Fin 100) \<rparr>,
      \<lparr> date = TimeValue 1709510400000, adjClose = Some (Fin 49) \<rparr>]"

definition sample_quote :: quote where
  "sample_quote =
     \<lparr> regularMarketPrice = Some (Fin 120),
       regularMarketPreviousClose = Some (Fin 50),
       marketCap = Some (Fin 60000000) \<rparr>"

definition sample_statement :: incomeStatement where
  "sample_statement = \<lparr> totalRevenue = Some (Fin 1000), endDate = Some (TimeValue 1703980800000) \<rparr>"

definition sample_summary :: summaryData where
  "sample_summary =
     \<lparr> defaultKeyStatistics = Some \<lparr> sharesOutstanding = Some (Fin 1000000) \<rparr>,
       incomeStatementHistory =
         Some \<lparr> ish_incomeStatementHistory = Some [sample_statement] \<rparr>,
       summaryDetail = Some \<lparr> beta = Some (Fin (5 / 4)) \<rparr>,
       financialData = Some \<lparr> fd_totalRevenue = Some \<lparr> raw = Some (Fin 1200) \<rparr> \<rparr> \<rparr>"

definition sample_profile :: profileSummary where
  "sample_profile =
     \<lparr> price = Some \<lparr> longName = Some ''Apple Inc.'', exchangeName = Some ''NasdaqGS'' \<rparr>,
       assetProfile =
         Some \<lparr> longBusinessSummary = Some ''Designs phones.'',
                ap_sector = Some ''Technology'',
                ap_industry = Some ''Consumer Electronics'',
                city = None,
                country = None \<rparr> \<rparr>"

definition sample_upstream :: upstream where
  "sample_upstream =
     \<lparr> up_historical = Inr sample_history,
       up_quote = Inr sample_quote,
       up_profile = Inr sample_profile,
       up_summary = Inr sample_summary,
       rejection_order = [] \<rparr>"

definition sample_now :: int where
  "sample_now = 1709650800123"

text \<open>The payload the sample request is answered with.\<close>

definition sample_result :: result where
  "sample_result =
     \<lparr> summary =
         \<lparr> initialInvestment = Fin 1000, currentValue = Fin 1200,
           totalReturnDollars = Fin 200, totalReturnPercent = Fin 20,
           s_ticker = ''AAPL'', s_startDate = ''2024-03-01'',
           sharesOwned = Fin 10,
           requestTimestamp = ''2024-03-05T15:00:00.123Z'' \<rparr>,
       chartData =
         [\<lparr> cp_date = ''2024-03-01'', cp_value = Fin 1000, cp_price = Fin 100 \<rparr>,
          \<lparr> cp_date = ''2024-03-04'', cp_value = Fin 490, cp_price = Fin 49 \<rparr>],
       profile =
         \<lparr> p_name = ''Apple Inc.'', p_sector = ''Technology'',
           p_industry = ''Consumer Electronics'',
           p_summary = ''Designs phones.'',
           p_location = ''undefined, undefined'',
           p_exchange = ''NasdaqGS'' \<rparr>,
       metrics =
         \<lparr> m_previousClose = \<lparr> pc_value = Num (Fin 49), pc_asOfDate = ''2024-03-04'' \<rparr>,
           m_marketCap = \<lparr> mc_value = Num (Fin 50000000), mc_asOfDate = ''2024-03-04'' \<rparr>,
           m_totalRevenue =
             \<lparr> tr_value = Num (Fin 1000), tr_asOfDate = Str ''2023-12-31'',
               tr_label = ''Annual'' \<rparr>,
           m_beta = Num (Fin (5 / 4)) \<rparr> \<rparr>"

text \<open>
  Variants of the sample statistics: an annual statement that reports a revenue of zero, and
  no annual statements at all.
\<close>

definition zero_revenue_summary :: summaryData where
  "zero_revenue_summary =
     sample_summary
       \<lparr> incomeStatementHistory :=
           Some \<lparr> ish_incomeStatementHistory =
                    Some [\<lparr> totalRevenue = Some (Fin 0),
                            endDate = Some (TimeValue 1703980800000) \<rparr>] \<rparr> \<rparr>"

definition ttm_only_summary :: summaryData where
  "ttm_only_summary = sample_summary \<lparr> incomeStatementHistory := None \<rparr>"

definition not_found_error :: js_error where
  "not_found_error = \<lparr> code = Undefined, message = Some ''HTTPError: Not Found'' \<rparr>"

definition network_error :: js_error where
  "network_error = \<lparr> code = Str ''ECONNRESET'', message = Some ''socket hang up'' \<rparr>"

text \<open>Two fetches failing with different errors, rejected in a given order.\<close>

definition failing_upstream :: "fetch list \<Rightarrow> upstream" where
  "failing_upstream order =
     sample_upstream \<lparr> up_historical := Inl not_found_error, up_quote := Inl network_error,
                       rejection_order := order \<rparr>"

section \<open>Auxiliary facts\<close>

lemma rejection_of_none:
  assumes "up_historical up = Inr h" "up_quote up = Inr q" "up_summary up = Inr s"
  shows "rejection_of up f = None"
  using assms by (cases f) simp_all

lemma promise_all_fulfilled:
  assumes "up_historical up = Inr h" "up_quote up = Inr q" "up_summary up = Inr s"
  shows "promise_all up = Inr (h, q, s)"
proof -
  have "rejections up = []"
    unfolding rejections_def List.map_filter_def
    using rejection_of_none [OF assms] by simp
  then show ?thesis
    using assms by (simp add: promise_all_def)
qed

lemma promise_all_InrD:
  assumes "promise_all up = Inr (h, q, s)"
  shows "up_historical up = Inr h \<and> up_quote up = Inr q \<and> up_summary up = Inr s"
  using assms
  by (auto simp: promise_all_def split: list.splits sum.splits)

lemma caught_not_success: "success_payload (caught tk sd plog e) = None"
  by (simp add: success_payload_def caught_def catch_block_def)

lemma success_payload_sent:
  "success_payload \<lparr> res = \<lparr> status = st, body = ResultBody r \<rparr>, calls = c, logged = l \<rparr> =
     (if st = 200 then Some r else None)"
  by (simp add: success_payload_def)

lemma chart_points_InrD:
  "map_throwing (chart_point sp) h = Inr cs \<Longrightarrow>
     (\<forall>d\<in>set h. adjClose d \<noteq> None) \<and>
     cs = map (\<lambda>d. \<lparr> cp_date = formatDateToYMD (date d),
                      cp_value = parseFloat_toFixed (js_mul sp (to_number (adjClose d))) 2,
                      cp_price = parseFloat_toFixed (to_number (adjClose d)) 2 \<rparr>) h"
proof (induction h arbitrary: cs)
  case Nil
  then show ?case by simp
next
  case (Cons d h)
  then show ?case
    by (auto simp: chart_point_def split: option.splits sum.splits)
qed

lemma chart_points_InrI:
  "\<forall>d\<in>set h. adjClose d \<noteq> None \<Longrightarrow>
   map_throwing (chart_point sp) h =
     Inr (map (\<lambda>d. \<lparr> cp_date = formatDateToYMD (date d),
                      cp_value = parseFloat_toFixed (js_mul sp (to_number (adjClose d))) 2,
                      cp_price = parseFloat_toFixed (to_number (adjClose d)) 2 \<rparr>) h)"
  by (induction h) (auto simp: chart_point_def split: option.splits sum.splits)

lemma build_result_InrD:
  assumes "build_result tk sd am h day0 dayN q pd s now = Inr r"
  shows "summary r =
           \<lparr> initialInvestment = parseFloat am,
             currentValue =
               parseFloat_toFixed
                 (js_mul (js_div (parseFloat am) (to_number (adjClose day0)))
                    (to_number (regularMarketPrice q))) 2,
             totalReturnDollars =
               parseFloat_toFixed
                 (js_sub (js_mul (js_div (parseFloat am) (to_number (adjClose day0)))
                            (to_number (regularMarketPrice q))) (parseFloat am)) 2,
             totalReturnPercent =
               parseFloat_toFixed
                 (js_mul
                    (js_div
                       (js_sub (js_mul (js_div (parseFloat am) (to_number (adjClose day0)))
                                  (to_number (regularMarketPrice q))) (parseFloat am))
                       (parseFloat am))
                    (Fin 100)) 2,
             s_ticker = toUpperCase tk,
             s_startDate = sd,
             sharesOwned = parseFloat_toFixed (js_div (parseFloat am) (to_number (adjClose day0))) 6,
             requestTimestamp = toISOString now \<rparr>"
    and "map_throwing (chart_point (js_div (parseFloat am) (to_number (adjClose day0)))) h =
           Inr (chartData r)"
    and "profile r = profile_block tk pd"
    and "metrics r =
           \<lparr> m_previousClose =
               \<lparr> pc_value = of_field (adjClose dayN), pc_asOfDate = formatDateToYMD (date dayN) \<rparr>,
             m_marketCap =
               \<lparr> mc_value =
                   calculatedMarketCap q (Option.bind (defaultKeyStatistics s) sharesOutstanding),
                 mc_asOfDate = formatDateToYMD (date dayN) \<rparr>,
             m_totalRevenue = resolve_revenue s (formatDateToYMD (date dayN)),
             m_beta = of_field (Option.bind (summaryDetail s) beta) \<rparr>"
  using assms by (auto simp: build_result_def Let_def split: sum.splits)

lemma build_result_InrI:
  assumes "map_throwing (chart_point (js_div (parseFloat am) (to_number (adjClose day0)))) h = Inr cs"
  shows "\<exists>r. build_result tk sd am h day0 dayN q pd s now = Inr r"
  using assms by (simp add: build_result_def Let_def)

lemma handler_successD:
  assumes "success_payload (handler req up now) = Some r"
  shows "\<exists>tk sd am day0 rest q s.
           ticker req = Some tk \<and> startDate req = Some sd \<and> amount req = Some am \<and>
           tk \<noteq> [] \<and> sd \<noteq> [] \<and> am \<noteq> [] \<and>
           up_historical up = Inr (day0 # rest) \<and> up_quote up = Inr q \<and> up_summary up = Inr s \<and>
           build_result tk sd am (day0 # rest) day0 (last (day0 # rest)) q
             (fst (getCompanyDetails tk (up_profile up))) s now = Inr r"
proof -
  from assms obtain tk sd am where
    p: "ticker req = Some tk" "startDate req = Some sd" "amount req = Some am"
       "tk \<noteq> []" "sd \<noteq> []" "am \<noteq> []"
    and t: "success_payload (try_block tk sd am up now) = Some r"
    by (auto simp: handler_def success_payload_def bad_request_def split: option.splits if_splits)
  from t obtain h q s where pa: "promise_all up = Inr (h, q, s)"
    by (cases "promise_all up") (auto simp: try_block_def Let_def caught_not_success)
  from t pa obtain day0 rest where h: "h = day0 # rest"
    by (cases h) (auto simp: try_block_def Let_def success_payload_def)
  have "build_result tk sd am (day0 # rest) day0 (last (day0 # rest)) q
             (fst (getCompanyDetails tk (up_profile up))) s now = Inr r"
  proof (cases "build_result tk sd am (day0 # rest) day0 (last (day0 # rest)) q
             (fst (getCompanyDetails tk (up_profile up))) s now")
    case (Inl e)
    with t pa h show ?thesis
      by (simp add: try_block_def Let_def caught_not_success del: last.simps)
  next
    case (Inr r')
    with t pa h show ?thesis
      by (simp add: try_block_def Let_def success_payload_sent del: last.simps)
  qed
  with p pa h promise_all_InrD [OF pa] show ?thesis by blast
qed

lemma handler_successI:
  assumes "ticker req = Some tk" "startDate req = Some sd" "amount req = Some am"
    "tk \<noteq> []" "sd \<noteq> []" "am \<noteq> []"
    "up_historical up = Inr (day0 # rest)" "up_quote up = Inr q" "up_summary up = Inr s"
    "build_result tk sd am (day0 # rest) day0 (last (day0 # rest)) q
             (fst (getCompanyDetails tk (up_profile up))) s now = Inr r"
  shows "handler req up now =
           \<lparr> res = \<lparr> status = 200, body = ResultBody r \<rparr>,
             calls = issued_calls tk sd,
             logged = snd (getCompanyDetails tk (up_profile up)) \<rparr>"
  using assms promise_all_fulfilled [OF assms(7-9)]
  by (simp add: handler_def try_block_def Let_def del: last.simps)

text \<open>What a successful response holds, in terms of what the provider returned.\<close>

lemma success_metrics:
  assumes "success_payload (handler req up now) = Some r"
    and "up_historical up = Inr h" and "up_quote up = Inr q" and "up_summary up = Inr s"
  shows "metrics r =
           \<lparr> m_previousClose =
               \<lparr> pc_value = of_field (adjClose (last h)),
                 pc_asOfDate = formatDateToYMD (date (last h)) \<rparr>,
             m_marketCap =
               \<lparr> mc_value =
                   calculatedMarketCap q (Option.bind (defaultKeyStatistics s) sharesOutstanding),
                 mc_asOfDate = formatDateToYMD (date (last h)) \<rparr>,
             m_totalRevenue = resolve_revenue s (formatDateToYMD (date (last h))),
             m_beta = of_field (Option.bind (summaryDetail s) beta) \<rparr>"
proof -
  from handler_successD [OF assms(1)] assms(2-4) obtain tk sd am day0 rest pd where
    "h = day0 # rest"
    "build_result tk sd am h day0 (last h) q pd s now = Inr r"
    by auto
  from build_result_InrD(4) [OF this(2)] show ?thesis .
qed

lemma success_profile:
  assumes "success_payload (handler req up now) = Some r" and "ticker req = Some tk"
  shows "profile r = profile_block tk (fst (getCompanyDetails tk (up_profile up)))"
proof -
  from handler_successD [OF assms(1)] assms(2) obtain sd am h day0 dayN q s where
    "build_result tk sd am h day0 dayN q (fst (getCompanyDetails tk (up_profile up))) s now = Inr r"
    by (auto simp del: last.simps)
  from build_result_InrD(3) [OF this] show ?thesis .
qed

lemma success_chart:
  assumes "success_payload (handler req up now) = Some r"
    and "up_historical up = Inr h" and "amount req = Some am"
  shows "h \<noteq> [] \<and>
         map_throwing (chart_point (js_div (parseFloat am) (to_number (adjClose (hd h))))) h =
           Inr (chartData r)"
proof -
  from handler_successD [OF assms(1)] assms(2,3) obtain tk sd day0 rest q pd s where
    "h = day0 # rest"
    "build_result tk sd am h day0 (last h) q pd s now = Inr r"
    by auto
  from build_result_InrD(2) [OF this(2)] this(1) show ?thesis by simp
qed

lemma success_summary:
  assumes "success_payload (handler req up now) = Some r"
    and "up_historical up = Inr (day0 # rest)" and "up_quote up = Inr q"
    and "ticker req = Some tk" and "startDate req = Some sd" and "amount req = Some am"
  shows "summary r =
           \<lparr> initialInvestment = parseFloat am,
             currentValue =
               parseFloat_toFixed
                 (js_mul (js_div (parseFloat am) (to_number (adjClose day0)))
                    (to_number (regularMarketPrice q))) 2,
             totalReturnDollars =
               parseFloat_toFixed
                 (js_sub (js_mul (js_div (parseFloat am) (to_number (adjClose day0)))
                            (to_number (regularMarketPrice q))) (parseFloat am)) 2,
             totalReturnPercent =
               parseFloat_toFixed
                 (js_mul
                    (js_div
                       (js_sub (js_mul (js_div (parseFloat am) (to_number (adjClose day0)))
                                  (to_number (regularMarketPrice q))) (parseFloat am))
                       (parseFloat am))
                    (Fin 100)) 2,
             s_ticker = toUpperCase tk,
             s_startDate = sd,
             sharesOwned = parseFloat_toFixed (js_div (parseFloat am) (to_number (adjClose day0))) 6,
             requestTimestamp = toISOString now \<rparr>"
proof -
  from handler_successD [OF assms(1)] assms(2-6) obtain pd s where
    "build_result tk sd am (day0 # rest) day0 (last (day0 # rest)) q pd s now = Inr r"
    by auto
  from build_result_InrD(1) [OF this] show ?thesis .
qed

lemma handler_succeeds:
  assumes "ticker req = Some tk" "startDate req = Some sd" "amount req = Some am"
    "tk \<noteq> []" "sd \<noteq> []" "am \<noteq> []"
    "up_historical up = Inr h" "h \<noteq> []" "\<forall>d\<in>set h. adjClose d \<noteq> None"
    "up_quote up = Inr q" "up_summary up = Inr s"
  shows "\<exists>r. handler req up now =
           \<lparr> res = \<lparr> status = 200, body = ResultBody r \<rparr>,
             calls = issued_calls tk sd,
             logged = snd (getCompanyDetails tk (up_profile up)) \<rparr>"
proof -
  from assms(8) obtain day0 rest where h: "h = day0 # rest" by (cases h) auto
  from build_result_InrI [OF chart_points_InrI [OF assms(9)]]
  obtain r where "build_result tk sd am h day0 (last h) q
             (fst (getCompanyDetails tk (up_profile up))) s now = Inr r"
    by blast
  with handler_successI [OF assms(1-6) assms(7) [unfolded h] assms(10,11)] h
  show ?thesis by blast
qed

section \<open>The sample request, evaluated\<close>

lemma floor_rat_numeral:
  "\<lfloor>(numeral a :: rat) / numeral b\<rfloor> = numeral a div numeral b"
  using floor_divide_of_int_eq [of "numeral a" "numeral b", where ?'a = rat] by simp

lemma sample_dates:
  "formatDateToYMD (TimeValue 1709251200000) = ''2024-03-01''"
  "formatDateToYMD (TimeValue 1709510400000) = ''2024-03-04''"
  "formatDateToYMD (TimeValue 1703980800000) = ''2023-12-31''"
  by code_simp+

lemma sample_timestamp: "toISOString sample_now = ''2024-03-05T15:00:00.123Z''"
  by code_simp

lemma sample_amount: "parseFloat ''1000'' = Fin 1000"
  by code_simp

lemma sample_ticker: "toUpperCase ''aapl'' = ''AAPL''"
  by code_simp

lemmas sample_defs =
  sample_request_def sample_upstream_def sample_history_def sample_quote_def
  sample_summary_def sample_statement_def sample_profile_def

lemma sample_build:
  "build_result ''aapl'' ''2024-03-01'' ''1000''
     (\<lparr> date = TimeValue 1709251200000, adjClose = Some (Fin 100) \<rparr> #
      [\<lparr> date = TimeValue 1709510400000, adjClose = Some (Fin 49) \<rparr>])
     \<lparr> date = TimeValue 1709251200000, adjClose = Some (Fin 100) \<rparr>
     (last (\<lparr> date = TimeValue 1709251200000, adjClose = Some (Fin 100) \<rparr> #
      [\<lparr> date = TimeValue 1709510400000, adjClose = Some (Fin 49) \<rparr>]))
     sample_quote (fst (getCompanyDetails ''aapl'' (up_profile sample_upstream)))
     sample_summary sample_now = Inr sample_result"
  by (simp add: build_result_def Let_def sample_defs getCompanyDetails_def sample_result_def
      sample_dates sample_timestamp sample_amount sample_ticker chart_point_def
      resolve_revenue_def latestAnnualStatement_def ttm_revenue_def calculatedMarketCap_def
      profile_block_def or_default_def floor_rat_numeral)

lemma sample_run:
  "handler sample_request sample_upstream sample_now =
     \<lparr> res = \<lparr> status = 200, body = ResultBody sample_result \<rparr>,
       calls = issued_calls ''aapl'' ''2024-03-01'', logged = [] \<rparr>"
proof -
  have "handler sample_request sample_upstream sample_now =
     \<lparr> res = \<lparr> status = 200, body = ResultBody sample_result \<rparr>,
       calls = issued_calls ''aapl'' ''2024-03-01'',
       logged = snd (getCompanyDetails ''aapl'' (up_profile sample_upstream)) \<rparr>"
    by (rule handler_successI [OF _ _ _ _ _ _ _ _ _ sample_build])
       (simp_all add: sample_defs)
  then show ?thesis
    by (simp add: getCompanyDetails_def sample_upstream_def)
qed

lemma sample_success:
  "success_payload (handler sample_request sample_upstream sample_now) = Some sample_result"
  by (simp add: sample_run success_payload_sent)

lemma sample_variant_success:
  assumes "up_historical up = Inr sample_history" "up_quote up = Inr q" "up_summary up = Inr s"
  shows "\<exists>r. success_payload (handler sample_request up now) = Some r"
proof -
  have p: "ticker sample_request = Some ''aapl''" "startDate sample_request = Some ''2024-03-01''"
    "amount sample_request = Some ''1000''" "''aapl'' \<noteq> []" "''2024-03-01'' \<noteq> []" "''1000'' \<noteq> []"
    by (simp_all add: sample_request_def)
  have a: "sample_history \<noteq> []" "\<forall>d\<in>set sample_history. adjClose d \<noteq> None"
    by (simp_all add: sample_history_def)
  from handler_succeeds [OF p assms(1) a assms(2,3), of now]
  show ?thesis
    by (auto simp: success_payload_sent)
qed

section \<open>Request validation\<close>

text \<open>
  C5. When any of \<open>ticker\<close>, \<open>startDate\<close>, \<open>amount\<close> is absent from the query, the response is
  status 400 with the body \<open>{ error: 'Missing required query parameters: ticker, startDate,
  amount' }\<close>, and the request issues no call to the provider.
\<close>

theorem missing_parameter_rejected:
  assumes "ticker req = None \<or> startDate req = None \<or> amount req = None"
  shows "res (handler req up now) =
           \<lparr> status = 400,
             body = ErrorBody ''Missing required query parameters: ticker, startDate, amount'' \<rparr>
         \<and> calls (handler req up now) = []"
  using assms by (auto simp: handler_def bad_request_def split: option.splits)

theorem missing_parameter_rejected_witness:
  "(ticker (sample_request \<lparr> amount := None \<rparr>) = None \<or>
    startDate (sample_request \<lparr> amount := None \<rparr>) = None \<or>
    amount (sample_request \<lparr> amount := None \<rparr>) = None) \<and>
   res (handler (sample_request \<lparr> amount := None \<rparr>) sample_upstream sample_now) =
     \<lparr> status = 400,
       body = ErrorBody ''Missing required query parameters: ticker, startDate, amount'' \<rparr> \<and>
   calls (handler (sample_request \<lparr> amount := None \<rparr>) sample_upstream sample_now) = []"
proof -
  have h: "ticker (sample_request \<lparr> amount := None \<rparr>) = None \<or>
           startDate (sample_request \<lparr> amount := None \<rparr>) = None \<or>
           amount (sample_request \<lparr> amount := None \<rparr>) = None"
    by simp
  from missing_parameter_rejected [OF h, of sample_upstream sample_now] h show ?thesis
    by blast
qed

section \<open>Empty history and failing fetches\<close>

lemma catch_block_res:
  "fst (catch_block tk err) =
     (if code err = Str ''404'' \<or> (\<exists>m. message err = Some m \<and> str_includes m ''Not Found'')
      then \<lparr> status = 404, body = ErrorBody (''Invalid ticker symbol: '' @ tk) \<rparr>
      else \<lparr> status = 500, body = ErrorBody ''An internal server error occurred.'' \<rparr>)"
  by (auto simp: catch_block_def split: option.splits)

lemma map_filter_SomeD: "e \<in> set (List.map_filter g xs) \<Longrightarrow> \<exists>x. g x = Some e"
  by (induction xs) (auto split: option.splits)

lemma rejections_sources:
  assumes "e \<in> set (rejections up)"
  shows "up_historical up = Inl e \<or> up_quote up = Inl e \<or> up_summary up = Inl e"
proof -
  from assms obtain f where "rejection_of up f = Some e"
    unfolding rejections_def by (blast dest: map_filter_SomeD)
  then show ?thesis
    by (cases f) (auto split: sum.splits)
qed

lemma promise_all_InlD:
  assumes "promise_all up = Inl e"
  shows "up_historical up = Inl e \<or> up_quote up = Inl e \<or> up_summary up = Inl e"
proof (cases "rejections up")
  case Nil
  with assms show ?thesis
    by (auto simp: promise_all_def split: sum.splits)
next
  case (Cons e' es)
  with assms have "e \<in> set (rejections up)"
    by (simp add: promise_all_def)
  then show ?thesis by (rule rejections_sources)
qed

lemma promise_all_rejects:
  assumes "up_historical up = Inl e1 \<or> up_quote up = Inl e2 \<or> up_summary up = Inl e3"
  shows "\<exists>e. promise_all up = Inl e"
  using assms
  by (cases "promise_all up"; cases "rejections up")
     (auto simp: promise_all_def split: sum.splits)

text \<open>
  C6. With the three parameters present: when all four fetches succeed and the historical
  series is empty, the response is 404 with the "No historical data found" body. When
  \<open>Promise.all\<close> rejects, which it does as soon as the historical, quote or statistics fetch
  fails, the response is 404 "Invalid ticker symbol: <ticker>" if the error has code \<open>'404'\<close>
  or a message containing "Not Found", and the generic 500 body otherwise.
\<close>

theorem empty_history_and_upstream_failure:
  assumes "ticker req = Some tk" "startDate req = Some sd" "amount req = Some am"
    and "tk \<noteq> []" "sd \<noteq> []" "am \<noteq> []"
  shows "(up_historical up = Inr [] \<and> up_quote up = Inr q \<and> up_profile up = Inr p \<and>
          up_summary up = Inr s \<longrightarrow>
            res (handler req up now) =
              \<lparr> status = 404,
                body = ErrorBody ''No historical data found for the given ticker and date.'' \<rparr>)
       \<and> (promise_all up = Inl err \<longrightarrow>
            res (handler req up now) =
              (if code err = Str ''404'' \<or>
                  (\<exists>m. message err = Some m \<and> str_includes m ''Not Found'')
               then \<lparr> status = 404, body = ErrorBody (''Invalid ticker symbol: '' @ tk) \<rparr>
               else \<lparr> status = 500, body = ErrorBody ''An internal server error occurred.'' \<rparr>))
       \<and> (up_historical up = Inl e1 \<or> up_quote up = Inl e2 \<or> up_summary up = Inl e3 \<longrightarrow>
            (\<exists>e. promise_all up = Inl e \<and>
                 (up_historical up = Inl e \<or> up_quote up = Inl e \<or> up_summary up = Inl e)))"
proof (intro conjI impI)
  assume "up_historical up = Inr [] \<and> up_quote up = Inr q \<and> up_profile up = Inr p \<and>
          up_summary up = Inr s"
  then have "promise_all up = Inr ([], q, s)"
    by (simp add: promise_all_fulfilled)
  with assms show "res (handler req up now) =
      \<lparr> status = 404,
        body = ErrorBody ''No historical data found for the given ticker and date.'' \<rparr>"
    by (simp add: handler_def try_block_def Let_def)
next
  assume "promise_all up = Inl err"
  with assms have "res (handler req up now) = fst (catch_block tk err)"
    by (simp add: handler_def try_block_def Let_def caught_def)
  then show "res (handler req up now) =
      (if code err = Str ''404'' \<or> (\<exists>m. message err = Some m \<and> str_includes m ''Not Found'')
       then \<lparr> status = 404, body = ErrorBody (''Invalid ticker symbol: '' @ tk) \<rparr>
       else \<lparr> status = 500, body = ErrorBody ''An internal server error occurred.'' \<rparr>)"
    by (simp only: catch_block_res)
next
  assume "up_historical up = Inl e1 \<or> up_quote up = Inl e2 \<or> up_summary up = Inl e3"
  from promise_all_rejects [OF this] obtain e where "promise_all up = Inl e" ..
  with promise_all_InlD [OF this]
  show "\<exists>e. promise_all up = Inl e \<and>
          (up_historical up = Inl e \<or> up_quote up = Inl e \<or> up_summary up = Inl e)"
    by blast
qed

theorem empty_history_and_upstream_failure_witness:
  "res (handler sample_request (sample_upstream \<lparr> up_historical := Inr [] \<rparr>) sample_now) =
     \<lparr> status = 404,
       body = ErrorBody ''No historical data found for the given ticker and date.'' \<rparr> \<and>
   promise_all (sample_upstream \<lparr> up_historical := Inl not_found_error \<rparr>) = Inl not_found_error \<and>
   res (handler sample_request (sample_upstream \<lparr> up_historical := Inl not_found_error \<rparr>)
          sample_now) =
     \<lparr> status = 404, body = ErrorBody ''Invalid ticker symbol: aapl'' \<rparr> \<and>
   promise_all (sample_upstream \<lparr> up_quote := Inl network_error \<rparr>) = Inl network_error \<and>
   res (handler sample_request (sample_upstream \<lparr> up_quote := Inl network_error \<rparr>) sample_now) =
     \<lparr> status = 500, body = ErrorBody ''An internal server error occurred.'' \<rparr>"
proof -
  have p: "ticker sample_request = Some ''aapl''" "startDate sample_request = Some ''2024-03-01''"
    "amount sample_request = Some ''1000''" "''aapl'' \<noteq> []" "''2024-03-01'' \<noteq> []" "''1000'' \<noteq> []"
    by (simp_all add: sample_request_def)
  have a: "promise_all (sample_upstream \<lparr> up_historical := Inl not_found_error \<rparr>) = Inl not_found_error"
    by (simp add: promise_all_def rejections_def List.map_filter_def sample_upstream_def)
  have b: "promise_all (sample_upstream \<lparr> up_quote := Inl network_error \<rparr>) = Inl network_error"
    by (simp add: promise_all_def rejections_def List.map_filter_def sample_upstream_def)
  have nf: "code not_found_error = Str ''404'' \<or>
            (\<exists>m. message not_found_error = Some m \<and> str_includes m ''Not Found'')"
    by (simp add: not_found_error_def)
  have ne: "\<not> (code network_error = Str ''404'' \<or>
            (\<exists>m. message network_error = Some m \<and> str_includes m ''Not Found''))"
    by (simp add: network_error_def)
  from empty_history_and_upstream_failure [OF p,
      of "sample_upstream \<lparr> up_historical := Inr [] \<rparr>" sample_quote sample_profile sample_summary]
  have 1: "res (handler sample_request (sample_upstream \<lparr> up_historical := Inr [] \<rparr>) sample_now) =
     \<lparr> status = 404,
       body = ErrorBody ''No historical data found for the given ticker and date.'' \<rparr>"
    by (simp add: sample_upstream_def)
  from empty_history_and_upstream_failure [OF p,
      of "sample_upstream \<lparr> up_historical := Inl not_found_error \<rparr>" _ _ _ sample_now not_found_error]
    a nf
  have 2: "res (handler sample_request (sample_upstream \<lparr> up_historical := Inl not_found_error \<rparr>)
          sample_now) = \<lparr> status = 404, body = ErrorBody ''Invalid ticker symbol: aapl'' \<rparr>"
    by simp
  from empty_history_and_upstream_failure [OF p,
      of "sample_upstream \<lparr> up_quote := Inl network_error \<rparr>" _ _ _ sample_now network_error]
    b ne
  have 3: "res (handler sample_request (sample_upstream \<lparr> up_quote := Inl network_error \<rparr>)
          sample_now) = \<lparr> status = 500, body = ErrorBody ''An internal server error occurred.'' \<rparr>"
    by simp
  from 1 2 3 a b show ?thesis by simp
qed

section \<open>Determinism\<close>

lemma rejection_of_profile_update [simp]:
  "rejection_of (up \<lparr> up_profile := x \<rparr>) f = rejection_of up f"
  by (cases f) simp_all

lemma promise_all_profile_update [simp]:
  "promise_all (up \<lparr> up_profile := x \<rparr>) = promise_all up"
proof -
  have "rejection_of (up \<lparr> up_profile := x \<rparr>) = rejection_of up"
    by (rule ext) simp
  then show ?thesis
    by (simp add: promise_all_def rejections_def split: list.splits)
qed

lemma try_block_cong:
  assumes "promise_all up' = promise_all up" "up_profile up' = up_profile up"
  shows "try_block tk sd am up' now = try_block tk sd am up now"
  using assms by (simp add: try_block_def)

lemma handler_cong:
  assumes "promise_all up' = promise_all up" "up_profile up' = up_profile up"
  shows "handler req up' now = handler req up now"
  using try_block_cong [OF assms] by (simp add: handler_def split: option.splits)

lemma map_filter_append:
  "List.map_filter g (xs @ ys) = List.map_filter g xs @ List.map_filter g ys"
  by (simp add: List.map_filter_def)

lemma map_filter_empty_iff: "List.map_filter g xs = [] \<longleftrightarrow> (\<forall>x\<in>set xs. g x = None)"
  by (induction xs) (auto split: option.splits)

lemma rejections_empty_iff: "rejections v = [] \<longleftrightarrow> (\<forall>f. rejection_of v f = None)"
proof
  assume a: "rejections v = []"
  show "\<forall>f. rejection_of v f = None"
  proof
    fix f
    from a show "rejection_of v f = None"
      unfolding rejections_def map_filter_empty_iff by (cases f) auto
  qed
next
  assume "\<forall>f. rejection_of v f = None"
  then show "rejections v = []"
    unfolding rejections_def map_filter_empty_iff by simp
qed

lemma promise_all_order_free:
  assumes "up_historical up' = up_historical up" "up_quote up' = up_quote up"
    "up_summary up' = up_summary up"
    and "rejection_order up' = rejection_order up \<or>
         (\<forall>f g e e'. rejection_of up f = Some e \<longrightarrow> rejection_of up g = Some e' \<longrightarrow> e' = e)"
  shows "promise_all up' = promise_all up"
proof -
  have r: "rejection_of up' = rejection_of up"
  proof
    fix f show "rejection_of up' f = rejection_of up f"
      using assms(1-3) by (cases f) simp_all
  qed
  from assms(4) show ?thesis
  proof
    assume "rejection_order up' = rejection_order up"
    with r assms(1-3) show ?thesis
      by (simp add: promise_all_def rejections_def split: list.splits)
  next
    assume u: "\<forall>f g e e'. rejection_of up f = Some e \<longrightarrow> rejection_of up g = Some e' \<longrightarrow> e' = e"
    have same: "e' = e" if "e \<in> set (rejections up)" "e' \<in> set (rejections up')" for e e'
    proof -
      from that obtain f g where "rejection_of up f = Some e" "rejection_of up' g = Some e'"
        unfolding rejections_def by (blast dest: map_filter_SomeD)
      with u r show ?thesis by metis
    qed
    have empty: "rejections up' = [] \<longleftrightarrow> rejections up = []"
      by (simp add: rejections_empty_iff r)
    show ?thesis
    proof (cases "rejections up")
      case Nil
      with empty have "rejections up' = []" by simp
      with Nil assms(1-3) show ?thesis
        by (simp add: promise_all_def)
    next
      case (Cons e es)
      with empty obtain e' es' where c': "rejections up' = e' # es'"
        by (cases "rejections up'") auto
      with Cons same [of e e'] have "e' = e" by simp
      with Cons c' show ?thesis
        by (simp add: promise_all_def)
    qed
  qed
qed

text \<open>
  C9, as the code has it. Two runs of the endpoint on the same request, in which each of the
  four fetches is answered the same way, send responses that are identical except for
  \<open>summary.requestTimestamp\<close>, issue the same calls and log the same lines, provided that
  the failing fetches are rejected in the same order in both runs or that no two fetches
  fail with different errors (so whenever at most one of them fails, and for every
  successful response).
\<close>

theorem deterministic_modulo_timestamp:
  assumes "up_historical up' = up_historical up" "up_quote up' = up_quote up"
    "up_profile up' = up_profile up" "up_summary up' = up_summary up"
    and "rejection_order up' = rejection_order up \<or>
         (\<forall>f g e e'. rejection_of up f = Some e \<longrightarrow> rejection_of up g = Some e' \<longrightarrow> e' = e)"
  shows "blank_timestamp (res (handler req up now)) = blank_timestamp (res (handler req up' now')) \<and>
         calls (handler req up now) = calls (handler req up' now') \<and>
         logged (handler req up now) = logged (handler req up' now')"
proof -
  have b: "(case build_result tk sd am h day0 dayN q pd s now of
              Inl e \<Rightarrow> (case build_result tk sd am h day0 dayN q pd s now' of
                          Inl e' \<Rightarrow> e' = e | Inr _ \<Rightarrow> False)
            | Inr r1 \<Rightarrow> (case build_result tk sd am h day0 dayN q pd s now' of
                          Inl _ \<Rightarrow> False
                        | Inr r2 \<Rightarrow> r1 \<lparr> summary := (summary r1) \<lparr> requestTimestamp := [] \<rparr> \<rparr> =
                                   r2 \<lparr> summary := (summary r2) \<lparr> requestTimestamp := [] \<rparr> \<rparr>))"
    for tk sd am h day0 dayN q pd s
    by (cases "map_throwing (chart_point (js_div (parseFloat am) (to_number (adjClose day0)))) h")
       (simp_all add: build_result_def Let_def)
  have t: "blank_timestamp (res (try_block tk sd am up now)) =
           blank_timestamp (res (try_block tk sd am up now')) \<and>
           calls (try_block tk sd am up now) = calls (try_block tk sd am up now') \<and>
           logged (try_block tk sd am up now) = logged (try_block tk sd am up now')"
    for tk sd am
  proof (cases "promise_all up")
    case (Inl e)
    then show ?thesis by (simp add: try_block_def Let_def)
  next
    case (Inr v)
    obtain h q s where v: "v = (h, q, s)" by (cases v)
    show ?thesis
    proof (cases h)
      case Nil
      with Inr v show ?thesis by (simp add: try_block_def Let_def)
    next
      case (Cons day0 rest)
      with Inr v show ?thesis
        using b [of tk sd am "day0 # rest" day0 "last (day0 # rest)" q
                 "fst (getCompanyDetails tk (up_profile up))" s]
        by (auto simp: try_block_def Let_def blank_timestamp_def caught_def
            simp del: last.simps split: sum.splits)
    qed
  qed
  have c: "handler req up' now' = handler req up now'"
    by (rule handler_cong [OF promise_all_order_free [OF assms(1,2,4,5)] assms(3)])
  show ?thesis
    unfolding c using t by (auto simp: handler_def split: option.splits)
qed

theorem deterministic_modulo_timestamp_witness:
  "blank_timestamp (res (handler sample_request sample_upstream sample_now)) =
   blank_timestamp (res (handler sample_request sample_upstream 0)) \<and>
   calls (handler sample_request sample_upstream sample_now) =
   calls (handler sample_request sample_upstream 0) \<and>
   res (handler sample_request sample_upstream sample_now) \<noteq>
   res (handler sample_request sample_upstream 0) \<and>
   blank_timestamp
     (res (handler sample_request (sample_upstream \<lparr> up_historical := Inl not_found_error \<rparr>)
             sample_now)) =
   blank_timestamp
     (res (handler sample_request
             (sample_upstream \<lparr> up_historical := Inl not_found_error,
                               rejection_order := [FSummary, FQuote, FHistorical] \<rparr>) 0))"
proof -
  have u: "up_historical sample_upstream = Inr sample_history"
    "up_quote sample_upstream = Inr sample_quote" "up_summary sample_upstream = Inr sample_summary"
    by (simp_all add: sample_upstream_def)
  have p: "ticker sample_request = Some ''aapl''" "startDate sample_request = Some ''2024-03-01''"
    "amount sample_request = Some ''1000''"
    by (simp_all add: sample_request_def)
  from sample_variant_success [OF u] obtain r where
    r: "success_payload (handler sample_request sample_upstream 0) = Some r" by blast
  have t0: "toISOString 0 = ''1970-01-01T00:00:00.000Z''" by code_simp
  from success_summary [OF r u(1) [unfolded sample_history_def] u(2) p]
  have "requestTimestamp (summary r) = ''1970-01-01T00:00:00.000Z''"
    by (simp add: t0)
  moreover have "requestTimestamp (summary sample_result) = ''2024-03-05T15:00:00.123Z''"
    by (simp add: sample_result_def)
  ultimately have ne: "r \<noteq> sample_result" by auto
  have 1: "res (handler sample_request sample_upstream sample_now) \<noteq>
        res (handler sample_request sample_upstream 0)"
  proof
    assume "res (handler sample_request sample_upstream sample_now) =
            res (handler sample_request sample_upstream 0)"
    then have "success_payload (handler sample_request sample_upstream sample_now) =
               success_payload (handler sample_request sample_upstream 0)"
      by (simp only: success_payload_def)
    with r sample_success ne show False by simp
  qed
  have 2: "blank_timestamp (res (handler sample_request sample_upstream sample_now)) =
           blank_timestamp (res (handler sample_request sample_upstream 0)) \<and>
           calls (handler sample_request sample_upstream sample_now) =
           calls (handler sample_request sample_upstream 0)"
    using deterministic_modulo_timestamp
      [of sample_upstream sample_upstream sample_request sample_now 0]
    by simp
  let ?up = "sample_upstream \<lparr> up_historical := Inl not_found_error \<rparr>"
  let ?up' = "sample_upstream \<lparr> up_historical := Inl not_found_error,
                                rejection_order := [FSummary, FQuote, FHistorical] \<rparr>"
  have one: "\<forall>f g e e'. rejection_of ?up f = Some e \<longrightarrow> rejection_of ?up g = Some e' \<longrightarrow> e' = e"
  proof (intro allI impI)
    fix f g e e'
    assume a: "rejection_of ?up f = Some e" and b: "rejection_of ?up g = Some e'"
    from a have "e = not_found_error"
      by (cases f) (simp_all add: sample_upstream_def)
    moreover from b have "e' = not_found_error"
      by (cases g) (simp_all add: sample_upstream_def)
    ultimately show "e' = e" by simp
  qed
  then have d: "rejection_order ?up' = rejection_order ?up \<or>
      (\<forall>f g e e'. rejection_of ?up f = Some e \<longrightarrow> rejection_of ?up g = Some e' \<longrightarrow> e' = e)"
    by (rule disjI2)
  have eqs: "up_historical ?up' = up_historical ?up" "up_quote ?up' = up_quote ?up"
    "up_profile ?up' = up_profile ?up" "up_summary ?up' = up_summary ?up"
    by simp_all
  have 3: "blank_timestamp (res (handler sample_request ?up sample_now)) =
           blank_timestamp (res (handler sample_request ?up' 0))"
    using deterministic_modulo_timestamp [OF eqs d, of sample_request sample_now 0]
    by blast
  from 1 2 3 show ?thesis by blast
qed

text \<open>
  The claim as stated fails when two fetches fail with different errors: the same answers,
  rejected in a different order, give a 404 in one run and a 500 in the other.
\<close>

theorem rejection_order_counterexample:
  "up_historical (failing_upstream [FHistorical]) = up_historical (failing_upstream [FQuote]) \<and>
   up_quote (failing_upstream [FHistorical]) = up_quote (failing_upstream [FQuote]) \<and>
   up_profile (failing_upstream [FHistorical]) = up_profile (failing_upstream [FQuote]) \<and>
   up_summary (failing_upstream [FHistorical]) = up_summary (failing_upstream [FQuote]) \<and>
   blank_timestamp (res (handler sample_request (failing_upstream [FHistorical]) sample_now)) =
     \<lparr> status = 404, body = ErrorBody ''Invalid ticker symbol: aapl'' \<rparr> \<and>
   blank_timestamp (res (handler sample_request (failing_upstream [FQuote]) sample_now)) =
     \<lparr> status = 500, body = ErrorBody ''An internal server error occurred.'' \<rparr>"
proof -
  have a: "promise_all (failing_upstream [FHistorical]) = Inl not_found_error"
    by (simp add: promise_all_def rejections_def List.map_filter_def failing_upstream_def
        sample_upstream_def)
  have b: "promise_all (failing_upstream [FQuote]) = Inl network_error"
    by (simp add: promise_all_def rejections_def List.map_filter_def failing_upstream_def
        sample_upstream_def)
  have 1: "res (handler sample_request (failing_upstream [FHistorical]) sample_now) =
     \<lparr> status = 404, body = ErrorBody ''Invalid ticker symbol: aapl'' \<rparr>"
    by (simp add: handler_def sample_request_def try_block_def a caught_def catch_block_def
        not_found_error_def)
  have 2: "res (handler sample_request (failing_upstream [FQuote]) sample_now) =
     \<lparr> status = 500, body = ErrorBody ''An internal server error occurred.'' \<rparr>"
    by (simp add: handler_def sample_request_def try_block_def b caught_def catch_block_def
        network_error_def)
  show ?thesis
    unfolding 1 2 by (simp add: failing_upstream_def blank_timestamp_def)
qed

section \<open>The profile block\<close>

lemma location_not_default: "a @ '', '' @ b \<noteq> ''N/A''"
proof
  assume h: "a @ '', '' @ b = ''N/A''"
  have "CHR '','' \<in> set (a @ '', '' @ b)" by simp
  then have "CHR '','' \<in> set ''N/A''" by (simp only: h)
  then show False by simp
qed

text \<open>
  C10. When the profile fetch succeeds, \<open>getCompanyDetails\<close> builds \<open>location\<close> by
  interpolating city and country, a missing one printing as \<open>undefined\<close>. The string is never
  empty, so the response's \<open>profile.location\<close> is that string and never the default \<open>N/A\<close>;
  with both missing it is \<open>undefined, undefined\<close>.
\<close>

theorem location_interpolates_missing_parts:
  assumes "success_payload (handler req up now) = Some r" and "up_profile up = Inr ps"
  shows "p_location (profile r) =
           interpolate (Option.bind (assetProfile ps) city) @ '', '' @
           interpolate (Option.bind (assetProfile ps) country)
       \<and> p_location (profile r) \<noteq> ''N/A''
       \<and> (Option.bind (assetProfile ps) city = None \<and>
          Option.bind (assetProfile ps) country = None \<longrightarrow>
            p_location (profile r) = ''undefined, undefined'')"
proof -
  from handler_successD [OF assms(1)] obtain tk where "ticker req = Some tk" by blast
  from success_profile [OF assms(1) this] assms(2)
  have "p_location (profile r) =
           interpolate (Option.bind (assetProfile ps) city) @ '', '' @
           interpolate (Option.bind (assetProfile ps) country)"
    by (simp add: profile_block_def getCompanyDetails_def or_default_def)
  then show ?thesis
    using location_not_default by auto
qed

theorem location_interpolates_missing_parts_witness:
  "success_payload (handler sample_request sample_upstream sample_now) = Some sample_result \<and>
   up_profile sample_upstream = Inr sample_profile \<and>
   Option.bind (assetProfile sample_profile) city = None \<and>
   Option.bind (assetProfile sample_profile) country = None \<and>
   p_location (profile sample_result) = ''undefined, undefined'' \<and>
   p_location (profile sample_result) \<noteq> ''N/A''"
proof -
  have u: "up_profile sample_upstream = Inr sample_profile"
    by (simp add: sample_upstream_def)
  have n: "Option.bind (assetProfile sample_profile) city = None \<and>
           Option.bind (assetProfile sample_profile) country = None"
    by (simp add: sample_profile_def)
  from location_interpolates_missing_parts [OF sample_success u] n sample_success u
  show ?thesis by simp
qed

lemma build_result_Inl_iff:
  "build_result tk sd am h day0 dayN q pd s now = Inl e \<longleftrightarrow>
   map_throwing (chart_point (js_div (parseFloat am) (to_number (adjClose day0)))) h = Inl e"
  by (cases "map_throwing (chart_point (js_div (parseFloat am) (to_number (adjClose day0)))) h")
     (simp_all add: build_result_def Let_def)

lemma build_result_status:
  "status (res (case build_result tk sd am h day0 dayN q pd s now of
                  Inl err \<Rightarrow> caught tk sd plog err
                | Inr r \<Rightarrow> \<lparr> res = \<lparr> status = 200, body = ResultBody r \<rparr>,
                           calls = cs, logged = plog \<rparr>)) =
   (case map_throwing (chart_point (js_div (parseFloat am) (to_number (adjClose day0)))) h of
      Inl err \<Rightarrow> status (fst (catch_block tk err))
    | Inr _ \<Rightarrow> 200)"
  by (cases "map_throwing (chart_point (js_div (parseFloat am) (to_number (adjClose day0)))) h")
     (simp_all add: build_result_def Let_def caught_def)

lemma try_block_status:
  "status (res (try_block tk sd am up now)) =
     (case promise_all up of
        Inl err \<Rightarrow> status (fst (catch_block tk err))
      | Inr (h, q, s) \<Rightarrow>
          (case h of
             [] \<Rightarrow> 404
           | day0 # _ \<Rightarrow>
               (case map_throwing
                       (chart_point (js_div (parseFloat am) (to_number (adjClose day0)))) h of
                  Inl err \<Rightarrow> status (fst (catch_block tk err))
                | Inr _ \<Rightarrow> 200)))"
proof (cases "promise_all up")
  case (Inl e)
  then show ?thesis by (simp add: try_block_def Let_def caught_def)
next
  case (Inr v)
  obtain h q s where v: "v = (h, q, s)" by (cases v)
  show ?thesis
  proof (cases h)
    case Nil
    with Inr v show ?thesis by (simp add: try_block_def Let_def)
  next
    case (Cons day0 rest)
    with Inr v show ?thesis
      by (simp add: try_block_def Let_def build_result_status del: last.simps)
  qed
qed

lemma try_block_status_profile:
  "status (res (try_block tk sd am (up \<lparr> up_profile := x \<rparr>) now)) =
   status (res (try_block tk sd am up now))"
  by (simp only: try_block_status promise_all_profile_update)

text \<open>
  C8. When the profile fetch fails, \<open>getCompanyDetails\<close> logs the error and returns \<open>null\<close>.
  The failure never changes the status of the response. When the other three fetches
  succeed on a non-empty series with every adjusted close present, the response is 200,
  its profile block holds the defaults (the upper-cased ticker as name, \<open>N/A\<close>,
  \<open>No summary available.\<close>), and its summary, chart and metrics are those of a run whose
  profile fetch succeeded.
\<close>

theorem profile_failure_tolerated:
  assumes "ticker req = Some tk" "startDate req = Some sd" "amount req = Some am"
    and "tk \<noteq> []" "sd \<noteq> []" "am \<noteq> []"
    and "up_profile up = Inl err"
  shows "getCompanyDetails tk (up_profile up) =
           (None, [LogError (''Error fetching profile data for '' @ tk @ '':'') (message err)])
       \<and> status (res (handler req (up \<lparr> up_profile := Inr ps \<rparr>) now)) =
           status (res (handler req up now))
       \<and> (up_historical up = Inr h \<and> h \<noteq> [] \<and> list_all (\<lambda>d. adjClose d \<noteq> None) h \<and>
          up_quote up = Inr q \<and> up_summary up = Inr s \<longrightarrow>
            (\<exists>r r'. handler req up now =
                 \<lparr> res = \<lparr> status = 200, body = ResultBody r \<rparr>,
                   calls = issued_calls tk sd,
                   logged = [LogError (''Error fetching profile data for '' @ tk @ '':'')
                               (message err)] \<rparr> \<and>
               profile r =
                 \<lparr> p_name = toUpperCase tk, p_sector = ''N/A'', p_industry = ''N/A'',
                   p_summary = ''No summary available.'', p_location = ''N/A'',
                   p_exchange = ''N/A'' \<rparr> \<and>
               success_payload (handler req (up \<lparr> up_profile := Inr ps \<rparr>) now) = Some r' \<and>
               summary r' = summary r \<and> chartData r' = chartData r \<and> metrics r' = metrics r))"
proof (intro conjI impI)
  show g: "getCompanyDetails tk (up_profile up) =
           (None, [LogError (''Error fetching profile data for '' @ tk @ '':'') (message err)])"
    using assms(7) by (simp add: getCompanyDetails_def)
  show "status (res (handler req (up \<lparr> up_profile := Inr ps \<rparr>) now)) =
           status (res (handler req up now))"
    using assms(1-6) try_block_status_profile by (simp add: handler_def)
  assume a: "up_historical up = Inr h \<and> h \<noteq> [] \<and> list_all (\<lambda>d. adjClose d \<noteq> None) h \<and>
          up_quote up = Inr q \<and> up_summary up = Inr s"
  then have all: "\<forall>d\<in>set h. adjClose d \<noteq> None"
    by (simp add: list_all_iff)
  from a obtain day0 rest where h: "h = day0 # rest" by (cases h) auto
  from handler_succeeds [OF assms(1-6) _ _ all, of up q s now] a g
  obtain r where r: "handler req up now =
       \<lparr> res = \<lparr> status = 200, body = ResultBody r \<rparr>, calls = issued_calls tk sd,
         logged = [LogError (''Error fetching profile data for '' @ tk @ '':'') (message err)] \<rparr>"
    by auto
  then have sr: "success_payload (handler req up now) = Some r"
    by (simp add: success_payload_sent)
  from handler_succeeds [OF assms(1-6) _ _ all, of "up \<lparr> up_profile := Inr ps \<rparr>" q s now] a
  obtain r' where "handler req (up \<lparr> up_profile := Inr ps \<rparr>) now =
       \<lparr> res = \<lparr> status = 200, body = ResultBody r' \<rparr>, calls = issued_calls tk sd,
         logged = snd (getCompanyDetails tk (Inr ps)) \<rparr>"
    by auto
  then have sr': "success_payload (handler req (up \<lparr> up_profile := Inr ps \<rparr>) now) = Some r'"
    by (simp add: success_payload_sent)
  have p: "profile r =
         \<lparr> p_name = toUpperCase tk, p_sector = ''N/A'', p_industry = ''N/A'',
           p_summary = ''No summary available.'', p_location = ''N/A'',
           p_exchange = ''N/A'' \<rparr>"
    using success_profile [OF sr assms(1)] g
    by (simp add: profile_block_def or_default_def)
  have m: "metrics r' = metrics r"
    using success_metrics [OF sr, of h q s] success_metrics [OF sr', of h q s] a by simp
  have s: "summary r' = summary r"
    using success_summary [OF sr _ _ assms(1-3), of day0 rest q]
          success_summary [OF sr' _ _ assms(1-3), of day0 rest q] a h by simp
  have c: "chartData r' = chartData r"
    using success_chart [OF sr _ assms(3), of h] success_chart [OF sr' _ assms(3), of h] a
    by simp
  from r p sr' s c m
  show "\<exists>r r'. handler req up now =
                 \<lparr> res = \<lparr> status = 200, body = ResultBody r \<rparr>,
                   calls = issued_calls tk sd,
                   logged = [LogError (''Error fetching profile data for '' @ tk @ '':'')
                               (message err)] \<rparr> \<and>
               profile r =
                 \<lparr> p_name = toUpperCase tk, p_sector = ''N/A'', p_industry = ''N/A'',
                   p_summary = ''No summary available.'', p_location = ''N/A'',
                   p_exchange = ''N/A'' \<rparr> \<and>
               success_payload (handler req (up \<lparr> up_profile := Inr ps \<rparr>) now) = Some r' \<and>
               summary r' = summary r \<and> chartData r' = chartData r \<and> metrics r' = metrics r"
    by blast
qed

theorem profile_failure_tolerated_witness:
  "up_profile (sample_upstream \<lparr> up_profile := Inl network_error \<rparr>) = Inl network_error \<and>
   getCompanyDetails ''aapl'' (up_profile (sample_upstream \<lparr> up_profile := Inl network_error \<rparr>)) =
     (None, [LogError ''Error fetching profile data for aapl:'' (Some ''socket hang up'')]) \<and>
   status (res (handler sample_request (sample_upstream \<lparr> up_profile := Inl network_error \<rparr>)
                  sample_now)) = 200 \<and>
   logged (handler sample_request (sample_upstream \<lparr> up_profile := Inl network_error \<rparr>)
             sample_now) =
     [LogError ''Error fetching profile data for aapl:'' (Some ''socket hang up'')] \<and>
   map_option profile
     (success_payload (handler sample_request
        (sample_upstream \<lparr> up_profile := Inl network_error \<rparr>) sample_now)) =
     Some \<lparr> p_name = ''AAPL'', p_sector = ''N/A'', p_industry = ''N/A'',
            p_summary = ''No summary available.'', p_location = ''N/A'', p_exchange = ''N/A'' \<rparr>"
proof -
  let ?up = "sample_upstream \<lparr> up_profile := Inl network_error \<rparr>"
  have p: "ticker sample_request = Some ''aapl''" "startDate sample_request = Some ''2024-03-01''"
    "amount sample_request = Some ''1000''" "''aapl'' \<noteq> []" "''2024-03-01'' \<noteq> []" "''1000'' \<noteq> []"
    by (simp_all add: sample_request_def)
  have f: "up_profile ?up = Inl network_error" by simp
  have o: "up_historical ?up = Inr sample_history \<and> sample_history \<noteq> [] \<and>
           list_all (\<lambda>d. adjClose d \<noteq> None) sample_history \<and>
           up_quote ?up = Inr sample_quote \<and> up_summary ?up = Inr sample_summary"
    by (simp add: sample_upstream_def sample_history_def)
  note t = profile_failure_tolerated [OF p f,
      of sample_profile sample_now sample_history sample_quote sample_summary]
  from t o obtain r where
    r: "handler sample_request ?up sample_now =
          \<lparr> res = \<lparr> status = 200, body = ResultBody r \<rparr>,
            calls = issued_calls ''aapl'' ''2024-03-01'',
            logged = [LogError (''Error fetching profile data for '' @ ''aapl'' @ '':'')
                        (message network_error)] \<rparr>"
    and pr: "profile r =
          \<lparr> p_name = toUpperCase ''aapl'', p_sector = ''N/A'', p_industry = ''N/A'',
            p_summary = ''No summary available.'', p_location = ''N/A'', p_exchange = ''N/A'' \<rparr>"
    by blast
  from t have g: "getCompanyDetails ''aapl'' (up_profile ?up) =
      (None, [LogError (''Error fetching profile data for '' @ ''aapl'' @ '':'')
                (message network_error)])"
    by blast
  from r pr g f show ?thesis
    by (simp add: success_payload_sent sample_ticker network_error_def)
qed

section \<open>Market capitalization\<close>




section \<open>Revenue\<close>

lemma truthy_num_Some: "truthy_num (Some v) \<longleftrightarrow> v \<noteq> NaN \<and> v \<noteq> Fin 0"
  by (cases v) simp_all

lemma sample_variant_metrics:
  assumes "up_historical up = Inr sample_history" "up_quote up = Inr q" "up_summary up = Inr s"
  shows "map_option (m_totalRevenue \<circ> metrics)
           (success_payload (handler sample_request up sample_now)) =
         Some (resolve_revenue s ''2024-03-04'')"
proof -
  have p: "ticker sample_request = Some ''aapl''" "startDate sample_request = Some ''2024-03-01''"
    "amount sample_request = Some ''1000''" "''aapl'' \<noteq> []" "''2024-03-01'' \<noteq> []" "''1000'' \<noteq> []"
    by (simp_all add: sample_request_def)
  have a: "sample_history \<noteq> []" "\<forall>d\<in>set sample_history. adjClose d \<noteq> None"
    by (simp_all add: sample_history_def)
  from handler_succeeds [OF p assms(1) a assms(2,3), of sample_now]
  obtain r where "success_payload (handler sample_request up sample_now) = Some r"
    by (auto simp: success_payload_sent)
  with success_metrics [OF this assms] show ?thesis
    by (simp add: sample_history_def sample_dates)
qed

text \<open>
  C1, as the code has it. In a successful response the \<open>metrics.totalRevenue\<close> block is
  resolved in three steps. If the most recent annual statement has a total revenue that is
  present, non-zero and not \<open>NaN\<close>, and an end date, the block carries that revenue, the
  label \<open>Annual\<close> and the end date formatted by \<open>formatDateToYMD\<close>. Otherwise, if the
  trailing revenue \<open>financialData.totalRevenue.raw\<close> is present, non-zero and not \<open>NaN\<close>, the
  block carries it with the label \<open>TTM\<close> and the last trading day's date. Otherwise value and
  date are \<open>null\<close> and the label is \<open>Annual\<close>.
\<close>

theorem revenue_resolution:
  assumes "success_payload (handler req up now) = Some r"
    and "up_historical up = Inr h" and "up_quote up = Inr q" and "up_summary up = Inr s"
  shows "(latestAnnualStatement s = Some st \<and> totalRevenue st = Some v \<and>
          v \<noteq> NaN \<and> v \<noteq> Fin 0 \<and> endDate st = Some d \<longrightarrow>
            m_totalRevenue (metrics r) =
              \<lparr> tr_value = Num v, tr_asOfDate = Str (formatDateToYMD d), tr_label = ''Annual'' \<rparr>)
       \<and> (\<not> (truthy_num (Option.bind (latestAnnualStatement s) totalRevenue) \<and>
             Option.bind (latestAnnualStatement s) endDate \<noteq> None) \<and>
          ttm_revenue s = Some w \<and> w \<noteq> NaN \<and> w \<noteq> Fin 0 \<longrightarrow>
            m_totalRevenue (metrics r) =
              \<lparr> tr_value = Num w, tr_asOfDate = Str (formatDateToYMD (date (last h))),
                tr_label = ''TTM'' \<rparr>)
       \<and> (\<not> (truthy_num (Option.bind (latestAnnualStatement s) totalRevenue) \<and>
             Option.bind (latestAnnualStatement s) endDate \<noteq> None) \<and>
          \<not> truthy_num (ttm_revenue s) \<longrightarrow>
            m_totalRevenue (metrics r) =
              \<lparr> tr_value = Null, tr_asOfDate = Null, tr_label = ''Annual'' \<rparr>)"
  using success_metrics [OF assms]
  by (auto simp: resolve_revenue_def truthy_num_Some)

theorem revenue_resolution_witness:
  "success_payload (handler sample_request sample_upstream sample_now) = Some sample_result \<and>
   latestAnnualStatement sample_summary = Some sample_statement \<and>
   totalRevenue sample_statement = Some (Fin 1000) \<and>
   endDate sample_statement = Some (TimeValue 1703980800000) \<and>
   ttm_revenue sample_summary = Some (Fin 1200) \<and>
   m_totalRevenue (metrics sample_result) =
     \<lparr> tr_value = Num (Fin 1000), tr_asOfDate = Str ''2023-12-31'', tr_label = ''Annual'' \<rparr> \<and>
   latestAnnualStatement ttm_only_summary = None \<and>
   ttm_revenue ttm_only_summary = Some (Fin 1200) \<and>
   map_option (m_totalRevenue \<circ> metrics)
     (success_payload
        (handler sample_request (sample_upstream \<lparr> up_summary := Inr ttm_only_summary \<rparr>)
           sample_now)) =
     Some \<lparr> tr_value = Num (Fin 1200), tr_asOfDate = Str ''2024-03-04'', tr_label = ''TTM'' \<rparr>"
proof -
  have u: "up_historical sample_upstream = Inr sample_history"
    "up_quote sample_upstream = Inr sample_quote" "up_summary sample_upstream = Inr sample_summary"
    by (simp_all add: sample_upstream_def)
  have v: "latestAnnualStatement sample_summary = Some sample_statement \<and>
           totalRevenue sample_statement = Some (Fin 1000) \<and> Fin 1000 \<noteq> NaN \<and>
           Fin 1000 \<noteq> Fin 0 \<and> endDate sample_statement = Some (TimeValue 1703980800000)"
    by (simp add: latestAnnualStatement_def sample_summary_def sample_statement_def)
  have w: "ttm_revenue sample_summary = Some (Fin 1200)"
    by (simp add: ttm_revenue_def sample_summary_def)
  from revenue_resolution [OF sample_success u,
      of sample_statement "Fin 1000" "TimeValue 1703980800000"] v
  have 1: "m_totalRevenue (metrics sample_result) =
     \<lparr> tr_value = Num (Fin 1000), tr_asOfDate = Str (formatDateToYMD (TimeValue 1703980800000)),
       tr_label = ''Annual'' \<rparr>"
    by blast
  let ?up = "sample_upstream \<lparr> up_summary := Inr ttm_only_summary \<rparr>"
  have u': "up_historical ?up = Inr sample_history" "up_quote ?up = Inr sample_quote"
    "up_summary ?up = Inr ttm_only_summary"
    by (simp_all add: sample_upstream_def)
  have v': "\<not> (truthy_num (Option.bind (latestAnnualStatement ttm_only_summary) totalRevenue) \<and>
              Option.bind (latestAnnualStatement ttm_only_summary) endDate \<noteq> None) \<and>
            ttm_revenue ttm_only_summary = Some (Fin 1200) \<and> Fin 1200 \<noteq> NaN \<and> Fin 1200 \<noteq> Fin 0"
    by (simp add: latestAnnualStatement_def ttm_revenue_def ttm_only_summary_def sample_summary_def)
  have n: "latestAnnualStatement ttm_only_summary = None"
    by (simp add: latestAnnualStatement_def ttm_only_summary_def sample_summary_def)
  from sample_variant_success [OF u'] obtain r where
    r: "success_payload (handler sample_request ?up sample_now) = Some r" by blast
  from revenue_resolution [OF r u', of _ _ _ "Fin 1200"] v'
  have "m_totalRevenue (metrics r) =
     \<lparr> tr_value = Num (Fin 1200),
       tr_asOfDate = Str (formatDateToYMD (date (last sample_history))), tr_label = ''TTM'' \<rparr>"
    by blast
  with r have 2: "map_option (m_totalRevenue \<circ> metrics)
     (success_payload (handler sample_request ?up sample_now)) =
     Some \<lparr> tr_value = Num (Fin 1200), tr_asOfDate = Str ''2024-03-04'', tr_label = ''TTM'' \<rparr>"
    by (simp add: sample_history_def sample_dates)
  from 1 2 sample_success v v' w n show ?thesis
    by (simp add: sample_dates)
qed

text \<open>
  The claim as stated fails when the annual statement reports a revenue of zero: the statement
  has a total-revenue figure and an end date, yet the block carries the trailing revenue
  with the label \<open>TTM\<close>.
\<close>

theorem revenue_counterexample:
  "latestAnnualStatement zero_revenue_summary =
     Some \<lparr> totalRevenue = Some (Fin 0), endDate = Some (TimeValue 1703980800000) \<rparr> \<and>
   map_option (m_totalRevenue \<circ> metrics)
     (success_payload
        (handler sample_request (sample_upstream \<lparr> up_summary := Inr zero_revenue_summary \<rparr>)
           sample_now)) =
     Some \<lparr> tr_value = Num (Fin 1200), tr_asOfDate = Str ''2024-03-04'', tr_label = ''TTM'' \<rparr>"
proof -
  have "map_option (m_totalRevenue \<circ> metrics)
     (success_payload
        (handler sample_request (sample_upstream \<lparr> up_summary := Inr zero_revenue_summary \<rparr>)
           sample_now)) = Some (resolve_revenue zero_revenue_summary ''2024-03-04'')"
    by (rule sample_variant_metrics [where q = sample_quote]) (simp_all add: sample_upstream_def)
  then show ?thesis
    by (simp add: resolve_revenue_def latestAnnualStatement_def ttm_revenue_def
        zero_revenue_summary_def sample_summary_def)
qed

section \<open>Investment performance\<close>






section \<open>The calendar\<close>

text \<open>
  The cycle computation of \<open>YearFromDay\<close> agrees with the ECMAScript definition of
  \<open>YearFromTime\<close>: the day lies between the first day of its year and the first day of the
  next one.
\<close>

lemma DayFromYear_cycles:
  assumes "0 \<le> b" "b \<le> 3" "0 \<le> c" "c \<le> 24" "0 \<le> e" "e \<le> 3"
  shows "DayFromYear (1601 + 400 * a + 100 * b + 4 * c + e) =
           146097 * a + 36524 * b + 1461 * c + 365 * e - 134774"
proof -
  let ?y = "1601 + 400 * a + 100 * b + 4 * c + e"
  have d4: "(?y - 1969) div 4 = 100 * a + 25 * b + c - 92"
    by (rule int_div_pos_eq [where r = e]) (use assms in auto)
  have d100: "(?y - 1901) div 100 = 4 * a + b - 3"
    by (rule int_div_pos_eq [where r = "4 * c + e"]) (use assms in auto)
  have d400: "(?y - 1601) div 400 = a"
    by (rule int_div_pos_eq [where r = "100 * b + 4 * c + e"]) (use assms in auto)
  show ?thesis
    unfolding DayFromYear_def d4 d100 d400 by simp
qed

lemma DaysInYear_cycles:
  assumes "0 \<le> b" "b \<le> 3" "0 \<le> c" "c \<le> 24" "0 \<le> e" "e \<le> 3"
  shows "DaysInYear (1601 + 400 * a + 100 * b + 4 * c + e) =
           (if e = 3 \<and> (c < 24 \<or> b = 3) then 366 else 365)"
proof -
  let ?y = "1601 + 400 * a + 100 * b + 4 * c + e"
  have m4: "?y mod 4 = (if e = 3 then 0 else e + 1)"
  proof (cases "e = 3")
    case True
    have "?y mod 4 = 0"
      by (rule int_mod_pos_eq [where q = "401 + 100 * a + 25 * b + c"]) (use True in auto)
    with True show ?thesis by simp
  next
    case False
    have "?y mod 4 = e + 1"
      by (rule int_mod_pos_eq [where q = "400 + 100 * a + 25 * b + c"]) (use False assms in auto)
    with False show ?thesis by simp
  qed
  have m100: "?y mod 100 = (if c = 24 \<and> e = 3 then 0 else 4 * c + e + 1)"
  proof (cases "c = 24 \<and> e = 3")
    case True
    have "?y mod 100 = 0"
      by (rule int_mod_pos_eq [where q = "17 + 4 * a + b"]) (use True in auto)
    with True show ?thesis by simp
  next
    case False
    have "?y mod 100 = 4 * c + e + 1"
      by (rule int_mod_pos_eq [where q = "16 + 4 * a + b"]) (use False assms in auto)
    with False show ?thesis by simp
  qed
  have m400: "?y mod 400 = (if b = 3 \<and> c = 24 \<and> e = 3 then 0 else 100 * b + 4 * c + e + 1)"
  proof (cases "b = 3 \<and> c = 24 \<and> e = 3")
    case True
    have "?y mod 400 = 0"
      by (rule int_mod_pos_eq [where q = "5 + a"]) (use True in auto)
    with True show ?thesis by simp
  next
    case False
    have "?y mod 400 = 100 * b + 4 * c + e + 1"
      by (rule int_mod_pos_eq [where q = "4 + a"]) (use False assms in auto)
    with False show ?thesis by simp
  qed
  show ?thesis
    unfolding DaysInYear_def m4 m100 m400 using assms by auto
qed


lemma div_succ:
  fixes k m :: int
  assumes "0 < m"
  shows "(k + 1) div m = k div m + (if (k + 1) mod m = 0 then 1 else 0)"
proof (cases "k mod m + 1 = m")
  case True
  have "m * (k div m + 1) = m * (k div m) + m"
    by (simp add: distrib_left)
  with True mult_div_mod_eq [of m k] have k: "k + 1 = m * (k div m + 1) + 0"
    by linarith
  have "(k + 1) div m = k div m + 1"
    by (rule int_div_pos_eq [OF k]) (use assms in auto)
  moreover have "(k + 1) mod m = 0"
    by (rule int_mod_pos_eq [OF k]) (use assms in auto)
  ultimately show ?thesis by simp
next
  case False
  have k: "k + 1 = m * (k div m) + (k mod m + 1)"
    using mult_div_mod_eq [of m k] by linarith
  have r: "0 \<le> k mod m + 1" "k mod m + 1 < m"
    using False pos_mod_bound [OF assms, of k] pos_mod_sign [OF assms, of k] by linarith+
  have "(k + 1) div m = k div m"
    by (rule int_div_pos_eq [OF k r])
  moreover have "(k + 1) mod m = k mod m + 1"
    by (rule int_mod_pos_eq [OF k r])
  ultimately show ?thesis using pos_mod_sign [OF assms, of k] by simp
qed

lemma DayFromYear_Suc: "DayFromYear (y + 1) = DayFromYear y + DaysInYear y"
proof -
  have a: "(y + 1 - 1969) div 4 = (y - 1969) div 4 + (if y mod 4 = 0 then 1 else 0)"
  proof -
    have "y - 1969 + 1 = y + 4 * (- 492)" by simp
    then have "(y - 1969 + 1) mod 4 = y mod 4" by (simp only: mod_mult_self2)
    with div_succ [of 4 "y - 1969"] show ?thesis by (simp add: algebra_simps)
  qed
  have b: "(y + 1 - 1901) div 100 = (y - 1901) div 100 + (if y mod 100 = 0 then 1 else 0)"
  proof -
    have "y - 1901 + 1 = y + 100 * (- 19)" by simp
    then have "(y - 1901 + 1) mod 100 = y mod 100" by (simp only: mod_mult_self2)
    with div_succ [of 100 "y - 1901"] show ?thesis by (simp add: algebra_simps)
  qed
  have c: "(y + 1 - 1601) div 400 = (y - 1601) div 400 + (if y mod 400 = 0 then 1 else 0)"
  proof -
    have "y - 1601 + 1 = y + 400 * (- 4)" by simp
    then have "(y - 1601 + 1) mod 400 = y mod 400" by (simp only: mod_mult_self2)
    with div_succ [of 400 "y - 1601"] show ?thesis by (simp add: algebra_simps)
  qed
  have d1: "y mod 100 = 0" if "y mod 400 = 0"
  proof -
    from that have "400 dvd y" by (simp add: mod_eq_0_iff_dvd)
    moreover have "(100::int) dvd 400" by simp
    ultimately have "100 dvd y" by (rule dvd_trans [rotated])
    then show ?thesis by (simp add: mod_eq_0_iff_dvd)
  qed
  have d2: "y mod 4 = 0" if "y mod 100 = 0"
  proof -
    from that have "100 dvd y" by (simp add: mod_eq_0_iff_dvd)
    moreover have "(4::int) dvd 100" by simp
    ultimately have "4 dvd y" by (rule dvd_trans [rotated])
    then show ?thesis by (simp add: mod_eq_0_iff_dvd)
  qed
  show ?thesis
    unfolding DayFromYear_def DaysInYear_def a b c using d1 d2 by auto
qed

lemma DaysInYear_pos: "0 < DaysInYear y"
  by (simp add: DaysInYear_def)

lemma DayFromYear_mono: "y \<le> y' \<Longrightarrow> DayFromYear y \<le> DayFromYear y'"
proof (induction y' rule: int_ge_induct)
  case base
  show ?case by simp
next
  case (step i)
  then show ?case
    using DaysInYear_pos [of i] by (simp add: DayFromYear_Suc)
qed

lemma YearFromDay_bracket:
  "DayFromYear (YearFromDay d) \<le> d \<and>
   d < DayFromYear (YearFromDay d) + DaysInYear (YearFromDay d)"
proof -
  define n where "n = d + 134774"
  define a where "a = n div 146097"
  define r where "r = n mod 146097"
  define b where "b = min 3 (r div 36524)"
  define r1 where "r1 = r - b * 36524"
  define c where "c = r1 div 1461"
  define r2 where "r2 = r1 mod 1461"
  define e where "e = min 3 (r2 div 365)"
  have y: "YearFromDay d = 1601 + 400 * a + 100 * b + 4 * c + e"
    by (simp add: YearFromDay_def Let_def n_def a_def r_def b_def r1_def c_def r2_def e_def)
  have r: "0 \<le> r" "r < 146097" "n = 146097 * a + r"
    by (simp_all add: r_def a_def)
  have b: "0 \<le> b" "b \<le> 3"
    using r by (simp_all add: b_def pos_imp_zdiv_nonneg_iff)
  have r1: "0 \<le> r1" "r1 \<le> 36524" "b < 3 \<Longrightarrow> r1 \<le> 36523"
    using r unfolding r1_def b_def by arith+
  have c: "0 \<le> c" "c \<le> 24"
    using r1 unfolding c_def by arith+
  have r2: "0 \<le> r2" "r2 < 1461" "r1 = 1461 * c + r2"
    by (simp_all add: r2_def c_def)
  have r2': "c = 24 \<Longrightarrow> b < 3 \<Longrightarrow> r2 \<le> 1459"
    using r1(3) r2(3) by simp
  have e: "0 \<le> e" "e \<le> 3"
    using r2 by (simp_all add: e_def pos_imp_zdiv_nonneg_iff)
  have doy: "0 \<le> r2 - 365 * e" "e < 3 \<Longrightarrow> r2 - 365 * e \<le> 364" "r2 - 365 * e \<le> 365"
    using r2 unfolding e_def by arith+
  have last_day: "r2 - 365 * e = 365 \<Longrightarrow> e = 3 \<and> (c < 24 \<or> b = 3)"
    using doy(2) r2' e b c by (cases "e < 3"; cases "c = 24"; cases "b < 3") auto
  have dfy: "DayFromYear (YearFromDay d) = 146097 * a + 36524 * b + 1461 * c + 365 * e - 134774"
    unfolding y by (rule DayFromYear_cycles [OF b c e])
  have diy: "DaysInYear (YearFromDay d) = (if e = 3 \<and> (c < 24 \<or> b = 3) then 366 else 365)"
    unfolding y by (rule DaysInYear_cycles [OF b c e])
  have off: "d - DayFromYear (YearFromDay d) = r2 - 365 * e"
    using dfy r(3) r2(3) by (simp add: n_def r1_def)
  show ?thesis
    using off doy last_day diy by (cases "r2 - 365 * e = 365") auto
qed

lemma YearFromDay_mono:
  assumes "d \<le> d'"
  shows "YearFromDay d \<le> YearFromDay d'"
proof (rule ccontr)
  assume "\<not> YearFromDay d \<le> YearFromDay d'"
  then have "YearFromDay d' + 1 \<le> YearFromDay d" by simp
  from DayFromYear_mono [OF this]
  have "DayFromYear (YearFromDay d') + DaysInYear (YearFromDay d') \<le> DayFromYear (YearFromDay d)"
    by (simp add: DayFromYear_Suc)
  with YearFromDay_bracket [of d] YearFromDay_bracket [of d'] assms show False
    by linarith
qed

section \<open>Date strings\<close>

lemma InLeapYear_cases: "InLeapYear t = 0 \<or> InLeapYear t = 1"
  by (simp add: InLeapYear_def)

lemma DayWithinYear_bounds: "0 \<le> DayWithinYear t \<and> DayWithinYear t < 365 + InLeapYear t"
proof -
  have "DaysInYear (YearFromTime t) = 365 + InLeapYear t"
    by (simp add: InLeapYear_def DaysInYear_def)
  with YearFromDay_bracket [of "Day t"] show ?thesis
    by (simp add: DayWithinYear_def YearFromTime_def)
qed

lemma MonthFromTime_range: "0 \<le> MonthFromTime t \<and> MonthFromTime t \<le> 11"
  by (simp add: MonthFromTime_def Let_def)

lemma DateFromTime_range: "1 \<le> DateFromTime t \<and> DateFromTime t \<le> 31"
  using DayWithinYear_bounds [of t] InLeapYear_cases [of t]
  unfolding DateFromTime_def MonthFromTime_def Let_def
  by (auto split: if_splits)

lemma of_char_digit_char: "of_char (digit_char n) = 48 + n mod 10"
proof -
  have "(48 + n mod 10) mod 256 = 48 + n mod 10"
    by (rule mod_less) (use mod_less_divisor [of 10 n] in linarith)
  then show ?thesis
    by (simp add: digit_char_def)
qed


lemma dec_digits_one: "n < 10 \<Longrightarrow> dec_digits n = [digit_char n]"
  by (simp add: dec_digits.simps)

lemma dec_digits_step: "10 \<le> n \<Longrightarrow> dec_digits n = dec_digits (n div 10) @ [digit_char (n mod 10)]"
  by (subst dec_digits.simps) simp

lemma dec_digits_two:
  assumes "10 \<le> n" "n < 100"
  shows "dec_digits n = [digit_char (n div 10), digit_char (n mod 10)]"
proof -
  have "n div 10 < 10" using assms by simp
  with assms show ?thesis
    by (simp add: dec_digits_step dec_digits_one)
qed

lemma dec_digits_four:
  assumes "1000 \<le> n" "n < 10000"
  shows "dec_digits n =
           [digit_char (n div 1000), digit_char (n div 100 mod 10),
            digit_char (n div 10 mod 10), digit_char (n mod 10)]"
proof -
  have a: "10 \<le> n" "10 \<le> n div 10" "10 \<le> n div 100" "n div 1000 < 10"
    using assms by simp_all
  have b: "n div 10 div 10 = n div 100" "n div 100 div 10 = n div 1000"
    by (simp_all add: div_mult2_eq [symmetric])
  have "dec_digits (n div 1000) = [digit_char (n div 1000)]"
    using a(4) by (rule dec_digits_one)
  then have "dec_digits (n div 100) = [digit_char (n div 1000), digit_char (n div 100 mod 10)]"
    using a(3) by (simp add: dec_digits_step b)
  then have "dec_digits (n div 10) =
      [digit_char (n div 1000), digit_char (n div 100 mod 10), digit_char (n div 10 mod 10)]"
    using a(2) by (simp add: dec_digits_step b)
  then show ?thesis
    using a(1) by (simp add: dec_digits_step)
qed

lemma digit_char_0: "digit_char 0 = CHR ''0''"
  by code_simp

lemma pad2:
  assumes "n < 100"
  shows "padStart0 2 (dec_digits n) = [digit_char (n div 10), digit_char (n mod 10)]"
proof (cases "n < 10")
  case True
  then show ?thesis
    by (simp add: padStart0_def dec_digits_one digit_char_0)
next
  case False
  with assms show ?thesis
    by (simp add: padStart0_def dec_digits_two)
qed

lemma formatDateToYMD_digits:
  assumes "1000 \<le> YearFromTime t" "YearFromTime t \<le> 9999"
  shows "formatDateToYMD (TimeValue t) =
           [digit_char (nat (YearFromTime t) div 1000),
            digit_char (nat (YearFromTime t) div 100 mod 10),
            digit_char (nat (YearFromTime t) div 10 mod 10),
            digit_char (nat (YearFromTime t) mod 10),
            CHR ''-'',
            digit_char (nat (MonthFromTime t + 1) div 10),
            digit_char (nat (MonthFromTime t + 1) mod 10),
            CHR ''-'',
            digit_char (nat (DateFromTime t) div 10),
            digit_char (nat (DateFromTime t) mod 10)]"
proof -
  have y: "1000 \<le> nat (YearFromTime t)" "nat (YearFromTime t) < 10000"
    using assms by simp_all
  have m: "nat (MonthFromTime t + 1) < 100"
    using MonthFromTime_range [of t] by linarith
  have d: "nat (DateFromTime t) < 100"
    using DateFromTime_range [of t] by linarith
  show ?thesis
    using assms MonthFromTime_range [of t] DateFromTime_range [of t]
    by (simp add: formatDateToYMD_def dec_digits_four [OF y] pad2 [OF m] pad2 [OF d])
qed




section \<open>The chart\<close>

subsection \<open>Dates in time order have their year, month and day in lexicographic order\<close>

lemma month_date_cases:
  "(DayWithinYear t < 31 \<and> MonthFromTime t = 0 \<and> DateFromTime t = DayWithinYear t + 1) \<or>
   (31 \<le> DayWithinYear t \<and> DayWithinYear t < 59 + InLeapYear t \<and> MonthFromTime t = 1 \<and>
      DateFromTime t = DayWithinYear t - 30) \<or>
   (59 + InLeapYear t \<le> DayWithinYear t \<and> DayWithinYear t < 90 + InLeapYear t \<and>
      MonthFromTime t = 2 \<and> DateFromTime t = DayWithinYear t - 58 - InLeapYear t) \<or>
   (90 + InLeapYear t \<le> DayWithinYear t \<and> DayWithinYear t < 120 + InLeapYear t \<and>
      MonthFromTime t = 3 \<and> DateFromTime t = DayWithinYear t - 89 - InLeapYear t) \<or>
   (120 + InLeapYear t \<le> DayWithinYear t \<and> DayWithinYear t < 151 + InLeapYear t \<and>
      MonthFromTime t = 4 \<and> DateFromTime t = DayWithinYear t - 119 - InLeapYear t) \<or>
   (151 + InLeapYear t \<le> DayWithinYear t \<and> DayWithinYear t < 181 + InLeapYear t \<and>
      MonthFromTime t = 5 \<and> DateFromTime t = DayWithinYear t - 150 - InLeapYear t) \<or>
   (181 + InLeapYear t \<le> DayWithinYear t \<and> DayWithinYear t < 212 + InLeapYear t \<and>
      MonthFromTime t = 6 \<and> DateFromTime t = DayWithinYear t - 180 - InLeapYear t) \<or>
   (212 + InLeapYear t \<le> DayWithinYear t \<and> DayWithinYear t < 243 + InLeapYear t \<and>
      MonthFromTime t = 7 \<and> DateFromTime t = DayWithinYear t - 211 - InLeapYear t) \<or>
   (243 + InLeapYear t \<le> DayWithinYear t \<and> DayWithinYear t < 273 + InLeapYear t \<and>
      MonthFromTime t = 8 \<and> DateFromTime t = DayWithinYear t - 242 - InLeapYear t) \<or>
   (273 + InLeapYear t \<le> DayWithinYear t \<and> DayWithinYear t < 304 + InLeapYear t \<and>
      MonthFromTime t = 9 \<and> DateFromTime t = DayWithinYear t - 272 - InLeapYear t) \<or>
   (304 + InLeapYear t \<le> DayWithinYear t \<and> DayWithinYear t < 334 + InLeapYear t \<and>
      MonthFromTime t = 10 \<and> DateFromTime t = DayWithinYear t - 303 - InLeapYear t) \<or>
   (334 + InLeapYear t \<le> DayWithinYear t \<and> MonthFromTime t = 11 \<and>
      DateFromTime t = DayWithinYear t - 333 - InLeapYear t)"
  using InLeapYear_cases [of t]
  unfolding DateFromTime_def MonthFromTime_def Let_def
  by auto

lemma month_date_mono:
  assumes "DayWithinYear t \<le> DayWithinYear t'" and "InLeapYear t = InLeapYear t'"
  shows "MonthFromTime t < MonthFromTime t' \<or>
         (MonthFromTime t = MonthFromTime t' \<and> DateFromTime t \<le> DateFromTime t')"
  using month_date_cases [of t] month_date_cases [of t'] assms InLeapYear_cases [of t]
  by (elim disjE conjE) linarith+

lemma Day_mono: "t \<le> t' \<Longrightarrow> Day t \<le> Day t'"
  by (simp add: Day_def msPerDay_def zdiv_mono1)

lemma ymd_mono:
  assumes "t \<le> t'"
  shows "YearFromTime t < YearFromTime t' \<or>
         (YearFromTime t = YearFromTime t' \<and>
           (MonthFromTime t < MonthFromTime t' \<or>
            (MonthFromTime t = MonthFromTime t' \<and> DateFromTime t \<le> DateFromTime t')))"
proof (cases "YearFromTime t = YearFromTime t'")
  case True
  then have "InLeapYear t = InLeapYear t'"
    by (simp add: InLeapYear_def)
  moreover have "DayWithinYear t \<le> DayWithinYear t'"
    using Day_mono [OF assms] True by (simp add: DayWithinYear_def)
  ultimately show ?thesis
    using month_date_mono True by blast
next
  case False
  with YearFromDay_mono [OF Day_mono [OF assms]] show ?thesis
    by (simp add: YearFromTime_def)
qed

subsection \<open>Digit strings of the same width are ordered as their numbers\<close>

lemma digit_char_less:
  assumes "a < 10" "b < 10"
  shows "digit_char a < digit_char b \<longleftrightarrow> a < b"
  using assms by (simp add: less_char_def of_char_digit_char)

lemma digit_char_eq:
  assumes "a < 10" "b < 10"
  shows "digit_char a = digit_char b \<longleftrightarrow> a = b"
proof
  assume "digit_char a = digit_char b"
  then have "(of_char (digit_char a) :: nat) = of_char (digit_char b)" by simp
  with assms show "a = b" by (simp add: of_char_digit_char)
qed simp

lemma div_mod_lex:
  fixes n n' k :: nat
  assumes "n < n'"
  shows "n div k < n' div k \<or> (n div k = n' div k \<and> n mod k < n' mod k)"
proof (cases "n div k = n' div k")
  case True
  have "n = n div k * k + n mod k" "n' = n' div k * k + n' mod k"
    by simp_all
  with True assms have "n mod k < n' mod k"
    by (metis add_less_cancel_left)
  with True show ?thesis by simp
next
  case False
  moreover have "n div k \<le> n' div k"
    using assms by (simp add: div_le_mono)
  ultimately show ?thesis by simp
qed

lemma digit_positions:
  fixes n :: nat
  shows "n div 1000 = n div 100 div 10"
    and "n div 10 mod 10 = n mod 100 div 10"
    and "n mod 10 = n mod 100 mod 10"
proof -
  show "n div 1000 = n div 100 div 10"
    by (simp add: div_mult2_eq [symmetric])
  have m: "n mod 100 = 10 * (n div 10 mod 10) + n mod 10"
    using mod_mult2_eq [of n 10 10] by simp
  show "n div 10 mod 10 = n mod 100 div 10"
    unfolding m by simp
  show "n mod 10 = n mod 100 mod 10"
    unfolding m by simp
qed

lemma two_digits_less:
  assumes "n < n'" "n' < 100"
  shows "digit_char (n div 10) # digit_char (n mod 10) # xs <
         digit_char (n' div 10) # digit_char (n' mod 10) # ys"
proof -
  have b: "n div 10 < 10" "n' div 10 < 10" "n mod 10 < 10" "n' mod 10 < 10"
    using assms by simp_all
  from div_mod_lex [OF assms(1), of 10] show ?thesis
    by (auto simp: digit_char_less [OF b(1,2)] digit_char_less [OF b(3,4)])
qed

lemma four_digits_less:
  assumes "n < n'" "n' < 10000"
  shows "digit_char (n div 1000) # digit_char (n div 100 mod 10) #
           digit_char (n div 10 mod 10) # digit_char (n mod 10) # xs <
         digit_char (n' div 1000) # digit_char (n' div 100 mod 10) #
           digit_char (n' div 10 mod 10) # digit_char (n' mod 10) # ys"
proof -
  have hl: "n div 100 < n' div 100 \<or> (n div 100 = n' div 100 \<and> n mod 100 < n' mod 100)"
    using assms(1) by (rule div_mod_lex)
  note e = digit_positions [of n] digit_positions [of n']
  have b: "n' div 100 < 100" "n' mod 100 < 100"
    using assms(2) by simp_all
  from hl show ?thesis
  proof
    assume "n div 100 < n' div 100"
    from two_digits_less [OF this b(1)] show ?thesis
      unfolding e .
  next
    assume a: "n div 100 = n' div 100 \<and> n mod 100 < n' mod 100"
    then have "digit_char (n mod 100 div 10) # digit_char (n mod 100 mod 10) # xs <
               digit_char (n' mod 100 div 10) # digit_char (n' mod 100 mod 10) # ys"
      using two_digits_less b(2) by blast
    with a show ?thesis
      unfolding e by simp
  qed
qed

lemma ymd_digits_le:
  fixes y m d y' m' d' :: nat
  assumes "y' < 10000" "m' < 100" "d' < 100"
    and "y < y' \<or> (y = y' \<and> (m < m' \<or> (m = m' \<and> d \<le> d')))"
  shows "[digit_char (y div 1000), digit_char (y div 100 mod 10), digit_char (y div 10 mod 10),
          digit_char (y mod 10), CHR ''-'', digit_char (m div 10), digit_char (m mod 10),
          CHR ''-'', digit_char (d div 10), digit_char (d mod 10)] \<le>
         [digit_char (y' div 1000), digit_char (y' div 100 mod 10), digit_char (y' div 10 mod 10),
          digit_char (y' mod 10), CHR ''-'', digit_char (m' div 10), digit_char (m' mod 10),
          CHR ''-'', digit_char (d' div 10), digit_char (d' mod 10)]"
proof -
  consider "y < y'" | "y = y'" "m < m'" | "y = y'" "m = m'" "d < d'" | "y = y'" "m = m'" "d = d'"
    using assms(4) by linarith
  then show ?thesis
  proof cases
    case 1
    from four_digits_less [OF 1 assms(1)] show ?thesis
      by (rule less_imp_le)
  next
    case 2
    from two_digits_less [OF 2(2) assms(2),
        of "[CHR ''-'', digit_char (d div 10), digit_char (d mod 10)]"
           "[CHR ''-'', digit_char (d' div 10), digit_char (d' mod 10)]"]
    have "[digit_char (m div 10), digit_char (m mod 10), CHR ''-'', digit_char (d div 10),
           digit_char (d mod 10)] \<le>
          [digit_char (m' div 10), digit_char (m' mod 10), CHR ''-'', digit_char (d' div 10),
           digit_char (d' mod 10)]"
      by (rule less_imp_le)
    with 2(1) show ?thesis
      by simp
  next
    case 3
    from two_digits_less [OF 3(3) assms(3), of "[]" "[]"]
    have "[digit_char (d div 10), digit_char (d mod 10)] \<le>
          [digit_char (d' div 10), digit_char (d' mod 10)]"
      by (rule less_imp_le)
    with 3(1,2) show ?thesis
      by simp
  next
    case 4
    then show ?thesis by simp
  qed
qed

lemma formatDateToYMD_mono:
  assumes "four_digit_year a" "four_digit_year b" "not_later a b"
  shows "formatDateToYMD a \<le> formatDateToYMD b"
proof -
  from assms obtain t t' where ab: "a = TimeValue t" "b = TimeValue t'"
    by (cases a; cases b) auto
  with assms have y: "1000 \<le> YearFromTime t" "YearFromTime t \<le> 9999"
    "1000 \<le> YearFromTime t'" "YearFromTime t' \<le> 9999" and le: "t \<le> t'"
    by simp_all
  have r: "nat (YearFromTime t') < 10000" "nat (MonthFromTime t' + 1) < 100"
    "nat (DateFromTime t') < 100"
    using y MonthFromTime_range [of t'] DateFromTime_range [of t'] by linarith+
  have "nat (YearFromTime t) < nat (YearFromTime t') \<or>
        (nat (YearFromTime t) = nat (YearFromTime t') \<and>
          (nat (MonthFromTime t + 1) < nat (MonthFromTime t' + 1) \<or>
           (nat (MonthFromTime t + 1) = nat (MonthFromTime t' + 1) \<and>
            nat (DateFromTime t) \<le> nat (DateFromTime t'))))"
    using ymd_mono [OF le] y MonthFromTime_range [of t] MonthFromTime_range [of t']
      DateFromTime_range [of t] DateFromTime_range [of t']
    by linarith
  from ymd_digits_le [OF r this] show ?thesis
    unfolding ab formatDateToYMD_digits [OF y(1,2)] formatDateToYMD_digits [OF y(3,4)] .
qed

text \<open>
  C7, as the code has it. In a successful response \<open>chartData\<close> has one entry per historical
  point, in the order of the series the provider returned, each with the formatted date of its
  point. The code does not sort: the dates are in ascending (non-decreasing) order when the
  provider's series is in time order, for dates whose years have four digits.
\<close>

theorem chart_follows_history:
  assumes "success_payload (handler req up now) = Some r" and "up_historical up = Inr h"
  shows "length (chartData r) = length h
       \<and> map cp_date (chartData r) = map (\<lambda>d. formatDateToYMD (date d)) h
       \<and> (list_all (\<lambda>d. four_digit_year (date d)) h \<and>
          sorted_wrt (\<lambda>a b. not_later (date a) (date b)) h \<longrightarrow>
            sorted (map cp_date (chartData r)))"
proof -
  from handler_successD [OF assms(1)] obtain am where "amount req = Some am" by blast
  from success_chart [OF assms this]
  obtain sp where "map_throwing (chart_point sp) h = Inr (chartData r)" by blast
  from chart_points_InrD [OF this]
  have d: "map cp_date (chartData r) = map (\<lambda>d. formatDateToYMD (date d)) h"
    and l: "length (chartData r) = length h"
    by (simp_all add: comp_def)
  have "sorted (map cp_date (chartData r))"
    if a: "list_all (\<lambda>d. four_digit_year (date d)) h"
      and s: "sorted_wrt (\<lambda>a b. not_later (date a) (date b)) h"
  proof -
    have "sorted_wrt (\<lambda>a b. formatDateToYMD (date a) \<le> formatDateToYMD (date b)) h"
    proof (rule sorted_wrt_mono_rel [OF _ s])
      fix x y
      assume "x \<in> set h" "y \<in> set h" "not_later (date x) (date y)"
      with a show "formatDateToYMD (date x) \<le> formatDateToYMD (date y)"
        by (auto simp: list_all_iff intro: formatDateToYMD_mono)
    qed
    then show ?thesis
      unfolding d by (simp add: sorted_map)
  qed
  with d l show ?thesis by blast
qed

theorem chart_follows_history_witness:
  "success_payload (handler sample_request sample_upstream sample_now) = Some sample_result \<and>
   up_historical sample_upstream = Inr sample_history \<and>
   list_all (\<lambda>d. four_digit_year (date d)) sample_history \<and>
   sorted_wrt (\<lambda>a b. not_later (date a) (date b)) sample_history \<and>
   length (chartData sample_result) = length sample_history \<and>
   map cp_date (chartData sample_result) = [''2024-03-01'', ''2024-03-04''] \<and>
   sorted (map cp_date (chartData sample_result))"
proof -
  have u: "up_historical sample_upstream = Inr sample_history"
    by (simp add: sample_upstream_def)
  have y: "YearFromTime 1709251200000 = 2024" "YearFromTime 1709510400000 = 2024"
    by code_simp+
  have o: "list_all (\<lambda>d. four_digit_year (date d)) sample_history \<and>
           sorted_wrt (\<lambda>a b. not_later (date a) (date b)) sample_history"
    by (simp add: sample_history_def y)
  from chart_follows_history [OF sample_success u] o
  have "length (chartData sample_result) = length sample_history \<and>
        map cp_date (chartData sample_result) =
          map (\<lambda>d. formatDateToYMD (date d)) sample_history \<and>
        sorted (map cp_date (chartData sample_result))"
    by blast
  moreover have "map (\<lambda>d. formatDateToYMD (date d)) sample_history =
                 [''2024-03-01'', ''2024-03-04'']"
    by (simp add: sample_history_def sample_dates)
  ultimately show ?thesis
    using sample_success u o by simp
qed

text \<open>
  The claim as stated fails when the provider returns the series newest first: the chart
  keeps that order and its dates descend.
\<close>

theorem chart_order_counterexample:
  "map_option (map cp_date \<circ> chartData)
     (success_payload
        (handler sample_request (sample_upstream \<lparr> up_historical := Inr (rev sample_history) \<rparr>)
           sample_now)) = Some [''2024-03-04'', ''2024-03-01''] \<and>
   \<not> sorted [''2024-03-04'', ''2024-03-01'']"
proof -
  let ?up = "sample_upstream \<lparr> up_historical := Inr (rev sample_history) \<rparr>"
  have p: "ticker sample_request = Some ''aapl''" "startDate sample_request = Some ''2024-03-01''"
    "amount sample_request = Some ''1000''" "''aapl'' \<noteq> []" "''2024-03-01'' \<noteq> []" "''1000'' \<noteq> []"
    by (simp_all add: sample_request_def)
  have u: "up_historical ?up = Inr (rev sample_history)" "up_quote ?up = Inr sample_quote"
    "up_summary ?up = Inr sample_summary"
    by (simp_all add: sample_upstream_def)
  have a: "rev sample_history \<noteq> []" "\<forall>d\<in>set (rev sample_history). adjClose d \<noteq> None"
    by (simp_all add: sample_history_def)
  from handler_succeeds [OF p u(1) a u(2,3), of sample_now]
  obtain r where r: "success_payload (handler sample_request ?up sample_now) = Some r"
    by (auto simp: success_payload_sent)
  from success_chart [OF r u(1) p(3)]
  obtain sp where "map_throwing (chart_point sp) (rev sample_history) = Inr (chartData r)"
    by blast
  from chart_points_InrD [OF this]
  have "map cp_date (chartData r) = [''2024-03-04'', ''2024-03-01'']"
    by (simp add: sample_history_def sample_dates)
  moreover have "\<not> sorted [''2024-03-04'', ''2024-03-01'']"
    by simp
  ultimately show ?thesis
    using r by simp
qed

end
